theory Spec2Isabelle
  imports Complex_Main "HOL-Library.Sublist" "HOL-Library.Log_Nat"
begin

section \<open>JavaScript values, promises and errors\<close>

text \<open>
  The dashboard's metrics service is TypeScript. A JavaScript \<open>number\<close> is modelled by the
  rational it denotes (\<^typ>\<open>rat\<close>); \<open>NaN\<close> is a value of its own where the code tests for it, and
  the infinities are outside the model. The arithmetic on the funnel counts, which are
  integers, is taken exact; the arithmetic on money amounts (the merchant block) rounds the
  result of every operation to the nearest double, by \<open>fl\<close> below. A value of type
  \<open>T | null\<close> is a \<^typ>\<open>'a option\<close> with \<^const>\<open>None\<close> for \<open>null\<close>. A string is a list of
  bytes; the characters of the source beyond ASCII are written as their UTF-8 bytes. An
  object (\<open>JObj\<close>) lists its properties in the order \<open>Object.values\<close> enumerates them;
  arrays and other exotic objects do not occur as values.
\<close>

datatype jsval =
    JUndefined
  | JNull
  | JBool bool
  | JNum rat
  | JNaN
  | JStr string
  | JObj "(string \<times> jsval) list"

text \<open>
  What a \<open>catch (err)\<close> receives: an \<open>Error\<close> object with its message, or any other thrown
  value, kept as the string \<open>String(err)\<close> gives for it.
\<close>

datatype js_error = ErrorObj string | NonError string

text \<open>\<open>err instanceof Error ? err.message : String(err)\<close>\<close>

fun error_message :: "js_error \<Rightarrow> string" where
  "error_message (ErrorObj m) = m"
| "error_message (NonError s) = s"

text \<open>How a promise settles.\<close>

datatype 'a settlement = Fulfilled 'a | Rejected js_error

text \<open>
  A promise raced against a timer. The event loop orders the two events: either the
  promise settles before the timer fires, or the timer fires first; in the second case the
  promise may settle later (\<open>Some\<close>) or never (\<open>None\<close>).
\<close>

datatype 'a racing = SettledFirst "'a settlement" | TimerFirst "'a settlement option"

text \<open>
  An \<open>async\<close> function whose only suspension point is one \<open>await\<close> of the raced operation
  settles in the same turn of the event loop as that operation, so its order against the
  timer is the operation's.
\<close>

fun then_async :: "('a settlement \<Rightarrow> 'b settlement) \<Rightarrow> 'a racing \<Rightarrow> 'b racing" where
  "then_async f (SettledFirst s) = SettledFirst (f s)"
| "then_async f (TimerFirst so) = TimerFirst (map_option f so)"

text \<open>\<open>Math.round\<close>: the nearest integer, a tie going up.\<close>

definition Math_round :: "rat \<Rightarrow> rat" where
  "Math_round x = of_int \<lfloor>x + 1 / 2\<rfloor>"

subsection \<open>Doubles\<close>

text \<open>
  IEEE 754 binary64 numbers, rounding to nearest with ties to even, on the rationals: a
  number other than 0 is scaled by a power of two so that it lies between \<open>2^52\<close> and \<open>2^53\<close>,
  rounded to an integer, and scaled back. The exponent is not bounded: overflow to infinity
  and the subnormal numbers below \<open>2^-1022\<close> are outside the model.

  \<open>expo x\<close> is the exponent \<open>e\<close> with \<open>2^e \<le> x < 2^(e+1)\<close>, for \<open>x > 0\<close>; it is found from the
  bit lengths of numerator and denominator.
\<close>

definition expo :: "rat \<Rightarrow> int" where
  "expo x =
     (let p = fst (quotient_of x); q = snd (quotient_of x);
          d = bitlen p - bitlen q
      in if 2 powi d \<le> x then d else d - 1)"

text \<open>The nearest integer, a tie going to the even one.\<close>

definition round_half_even :: "rat \<Rightarrow> int" where
  "round_half_even y =
     (let f = \<lfloor>y\<rfloor>; r = y - of_int f
      in if r < 1 / 2 then f else if 1 / 2 < r then f + 1 else if even f then f else f + 1)"

text \<open>The double nearest to a positive number, and to any number.\<close>

definition fl_pos :: "rat \<Rightarrow> rat" where
  "fl_pos x = (let u = 2 powi (expo x - 52) in of_int (round_half_even (x / u)) * u)"

definition fl :: "rat \<Rightarrow> rat" where
  "fl x = (if x = 0 then 0 else if 0 < x then fl_pos x else - fl_pos (- x))"

section \<open>Store client (\<open>lib/snowflake.ts\<close>)\<close>

definition is_digit :: "char \<Rightarrow> bool" where
  "is_digit c = (48 \<le> (of_char c :: nat) \<and> (of_char c :: nat) \<le> 57)"

definition digit_val :: "char \<Rightarrow> nat" where
  "digit_val c = of_char c - 48"

text \<open>The value of a string of decimal digits.\<close>

definition digits_val :: "string \<Rightarrow> nat" where
  "digits_val ds = foldl (\<lambda>a c. 10 * a + digit_val c) 0 ds"

text \<open>\<open>/^\d+$/.test(s)\<close>\<close>

definition matches_digits :: "string \<Rightarrow> bool" where
  "matches_digits s = (s \<noteq> [] \<and> list_all is_digit s)"

text \<open>\<open>parseInt(s, 10)\<close> on a string that passed \<open>/^\d+$/\<close>.\<close>

definition parseInt10 :: "string \<Rightarrow> rat" where
  "parseInt10 s = of_nat (digits_val s)"

text \<open>\<open>/^-?\d*\.?\d+$/.test(s)\<close>: an optional sign, digits, an optional point, digits (at least one).\<close>

definition matches_unsigned :: "string \<Rightarrow> bool" where
  "matches_unsigned s =
     (let a = takeWhile is_digit s; b = dropWhile is_digit s in
      case b of
        [] \<Rightarrow> a \<noteq> []
      | c # fr \<Rightarrow> c = CHR ''.'' \<and> fr \<noteq> [] \<and> list_all is_digit fr)"

definition matches_decimal :: "string \<Rightarrow> bool" where
  "matches_decimal s =
     (case s of
        [] \<Rightarrow> False
      | c # r \<Rightarrow> if c = CHR ''-'' then matches_unsigned r else matches_unsigned s)"

definition unsigned_val :: "string \<Rightarrow> rat" where
  "unsigned_val s =
     (let a = takeWhile is_digit s; fr = drop 1 (dropWhile is_digit s) in
      of_nat (digits_val a) + of_nat (digits_val fr) / 10 ^ length fr)"

text \<open>\<open>parseFloat(s)\<close> on a string that passed \<open>/^-?\d*\.?\d+$/\<close>.\<close>

definition parseFloat :: "string \<Rightarrow> rat" where
  "parseFloat s =
     (case s of
        [] \<Rightarrow> 0
      | c # r \<Rightarrow> if c = CHR ''-'' then - unsigned_val r else unsigned_val s)"

text \<open>
  \<open>rows?.[0]\<close> followed by \<open>if (!first || typeof first !== 'object') return null\<close> and
  \<open>Object.values(first)[0]\<close>: the first property value of the first row, when the first row
  is an object; \<open>None\<close> where the code returns \<open>null\<close> at the guard. An object without
  properties gives \<open>undefined\<close>.
\<close>

definition first_cell :: "jsval list \<Rightarrow> jsval option" where
  "first_cell rows =
     (case rows of
        [] \<Rightarrow> None
      | first # _ \<Rightarrow>
          (case first of
             JObj kvs \<Rightarrow> (case kvs of [] \<Rightarrow> Some JUndefined | (k, v) # _ \<Rightarrow> Some v)
           | _ \<Rightarrow> None))"

text \<open>
  \<open>runCount\<close>, as a function of how \<open>executeAsync\<close> settled. A rejection of \<open>executeAsync\<close>
  is thrown by the \<open>await\<close> and rejects \<open>runCount\<close>.
\<close>

definition runCount :: "jsval list settlement \<Rightarrow> rat option settlement" where
  "runCount exec =
     (case exec of
        Rejected e \<Rightarrow> Rejected e
      | Fulfilled rows \<Rightarrow>
          (case first_cell rows of
             None \<Rightarrow> Fulfilled None
           | Some val \<Rightarrow>
               (case val of
                  JNum n \<Rightarrow> Fulfilled (Some n)
                | JStr s \<Rightarrow> if matches_digits s then Fulfilled (Some (parseInt10 s)) else Fulfilled None
                | _ \<Rightarrow> Fulfilled None)))"

definition runScalar :: "jsval list settlement \<Rightarrow> rat option settlement" where
  "runScalar exec =
     (case exec of
        Rejected e \<Rightarrow> Rejected e
      | Fulfilled rows \<Rightarrow>
          (case first_cell rows of
             None \<Rightarrow> Fulfilled None
           | Some val \<Rightarrow>
               (case val of
                  JNull \<Rightarrow> Fulfilled None
                | JUndefined \<Rightarrow> Fulfilled None
                | JNum n \<Rightarrow> Fulfilled (Some n)
                | JStr s \<Rightarrow> if matches_decimal s then Fulfilled (Some (parseFloat s)) else Fulfilled None
                | _ \<Rightarrow> Fulfilled None)))"

text \<open>
  \<open>withConnection\<close>: \<open>await connectAsync(conn)\<close> is outside the \<open>try\<close>, so a failed connect
  rejects the call; otherwise the result is the callback's, and what \<open>destroy\<close> does in the
  \<open>finally\<close> is ignored by the code.
\<close>

definition withConnection :: "unit settlement \<Rightarrow> 'a settlement \<Rightarrow> 'a settlement" where
  "withConnection connect body =
     (case connect of Rejected e \<Rightarrow> Rejected e | Fulfilled _ \<Rightarrow> body)"

section \<open>Query catalog (\<open>lib/bnpl-queries.ts\<close>)\<close>

text \<open>
  The builders read the module constants \<open>EXCL_CP\<close> and \<open>EXCL_PLAN\<close>, fixed when the module
  loads from the environment variable \<open>EXCLUDE_TEST_USERS\<close>. Here the flag is the
  builders' first argument \<open>x\<close>. An optional argument \<open>from?: string\<close> is a
  \<^typ>\<open>string option\<close> with \<^const>\<open>None\<close> for \<open>undefined\<close>.
\<close>

definition sq :: string where
  "sq = [CHR 0x27]"

definition nl :: string where
  "nl = [CHR 0x0A]"

definition EXCL_CP :: "bool \<Rightarrow> string" where
  "EXCL_CP x =
     (if x then
        '' AND ID NOT IN (SELECT ID FROM CDC_CONSUMER_PROFILE_PRODUCTION.PUBLIC.CONSUMER_PROFILE WHERE LOWER(EMAIL) LIKE '%stitch.money%')''
      else [])"

definition EXCL_PLAN :: "bool \<Rightarrow> string" where
  "EXCL_PLAN x =
     (if x then
        '' AND CONSUMER_PROFILE_ID NOT IN (SELECT ID FROM CDC_CONSUMER_PROFILE_PRODUCTION.PUBLIC.CONSUMER_PROFILE WHERE LOWER(EMAIL) LIKE '%stitch.money%')''
      else [])"

text \<open>A string in a condition (\<open>from && to\<close>): defined and not empty.\<close>

definition truthy :: "string option \<Rightarrow> bool" where
  "truthy s = (case s of None \<Rightarrow> False | Some v \<Rightarrow> v \<noteq> [])"

text \<open>\<open>(f || '').slice(0, 10)\<close>\<close>

definition fd :: "string option \<Rightarrow> string" where
  "fd f = take 10 (case f of None \<Rightarrow> [] | Some v \<Rightarrow> v)"

definition appliedCountSql :: "bool \<Rightarrow> string option \<Rightarrow> string option \<Rightarrow> string" where
  "appliedCountSql x from to =
     (if truthy from \<and> truthy to then
        ''SELECT COUNT(*) AS n FROM CDC_CONSUMER_PROFILE_PRODUCTION.PUBLIC.CONSUMER_PROFILE WHERE DATE(CREATED_AT) >= '' @
        sq @ fd from @ sq @ '' AND DATE(CREATED_AT) <= '' @ sq @ fd to @ sq @ EXCL_CP x
      else
        ''SELECT COUNT(*) AS n FROM CDC_CONSUMER_PROFILE_PRODUCTION.PUBLIC.CONSUMER_PROFILE WHERE 1=1'' @
        EXCL_CP x)"

definition approvedCountSql :: "bool \<Rightarrow> string option \<Rightarrow> string option \<Rightarrow> string" where
  "approvedCountSql x from to =
     (if truthy from \<and> truthy to then
        ''SELECT COUNT(*) AS n FROM CDC_CONSUMER_PROFILE_PRODUCTION.PUBLIC.CONSUMER_PROFILE WHERE UPPER(TRIM(CREDIT_CHECK_STATUS)) != 'REJECTED' AND DATE(CREATED_AT) >= '' @
        sq @ fd from @ sq @ '' AND DATE(CREATED_AT) <= '' @ sq @ fd to @ sq @ EXCL_CP x
      else
        ''SELECT COUNT(*) AS n FROM CDC_CONSUMER_PROFILE_PRODUCTION.PUBLIC.CONSUMER_PROFILE WHERE UPPER(TRIM(CREDIT_CHECK_STATUS)) != 'REJECTED'' @
        sq @ EXCL_CP x)"

definition kycVerifiedCountSql :: "bool \<Rightarrow> string option \<Rightarrow> string option \<Rightarrow> string" where
  "kycVerifiedCountSql x from to =
     (if truthy from \<and> truthy to then
        ''SELECT COUNT(*) AS n FROM CDC_CONSUMER_PROFILE_PRODUCTION.PUBLIC.CONSUMER_PROFILE WHERE UPPER(TRIM(kyc_status)) IN ('VERIFIED', 'COMPLETE', 'SUCCESS') AND DATE(CREATED_AT) >= '' @
        sq @ fd from @ sq @ '' AND DATE(CREATED_AT) <= '' @ sq @ fd to @ sq @ EXCL_CP x
      else
        ''SELECT COUNT(*) AS n FROM CDC_CONSUMER_PROFILE_PRODUCTION.PUBLIC.CONSUMER_PROFILE WHERE UPPER(TRIM(kyc_status)) IN ('VERIFIED', 'COMPLETE', 'SUCCESS')'' @
        EXCL_CP x)"

definition planCreationSql :: "bool \<Rightarrow> string option \<Rightarrow> string option \<Rightarrow> string" where
  "planCreationSql x from to =
     (if truthy from \<and> truthy to then
        ''SELECT COUNT(*) AS n FROM (SELECT DISTINCT ip.CONSUMER_PROFILE_ID FROM CDC_BNPL_PRODUCTION.PUBLIC.COLLECTION_ATTEMPT ca INNER JOIN CDC_BNPL_PRODUCTION.PUBLIC.COLLECTION_ATTEMPT_INSTALMENT_LINK cal ON cal.COLLECTION_ATTEMPT_ID = ca.ID INNER JOIN CDC_BNPL_PRODUCTION.PUBLIC.INSTALMENT i ON i.ID = cal.INSTALMENT_ID INNER JOIN CDC_BNPL_PRODUCTION.PUBLIC.INSTALMENT_PLAN ip ON ip.ID = i.INSTALMENT_PLAN_ID WHERE UPPER(TRIM(ca.TYPE)) = 'INITIAL' AND DATE(COALESCE(ca.EXECUTED_AT, ca.CREATED_AT)) >= '' @
        sq @ fd from @ sq @ '' AND DATE(COALESCE(ca.EXECUTED_AT, ca.CREATED_AT)) <= '' @ sq @ fd to @
        sq @ EXCL_PLAN x @ '') t''
      else
        ''SELECT COUNT(*) AS n FROM (SELECT DISTINCT ip.CONSUMER_PROFILE_ID FROM CDC_BNPL_PRODUCTION.PUBLIC.COLLECTION_ATTEMPT ca INNER JOIN CDC_BNPL_PRODUCTION.PUBLIC.COLLECTION_ATTEMPT_INSTALMENT_LINK cal ON cal.COLLECTION_ATTEMPT_ID = ca.ID INNER JOIN CDC_BNPL_PRODUCTION.PUBLIC.INSTALMENT i ON i.ID = cal.INSTALMENT_ID INNER JOIN CDC_BNPL_PRODUCTION.PUBLIC.INSTALMENT_PLAN ip ON ip.ID = i.INSTALMENT_PLAN_ID WHERE UPPER(TRIM(ca.TYPE)) = 'INITIAL'' @
        sq @ EXCL_PLAN x @ '') t'')"

definition initialCollectionSql :: "bool \<Rightarrow> string option \<Rightarrow> string option \<Rightarrow> string" where
  "initialCollectionSql x from to =
     (if truthy from \<and> truthy to then
        ''SELECT COUNT(*) AS n FROM (SELECT DISTINCT ip.CONSUMER_PROFILE_ID FROM CDC_BNPL_PRODUCTION.PUBLIC.COLLECTION_ATTEMPT ca INNER JOIN CDC_BNPL_PRODUCTION.PUBLIC.COLLECTION_ATTEMPT_INSTALMENT_LINK cal ON cal.COLLECTION_ATTEMPT_ID = ca.ID INNER JOIN CDC_BNPL_PRODUCTION.PUBLIC.INSTALMENT i ON i.ID = cal.INSTALMENT_ID INNER JOIN CDC_BNPL_PRODUCTION.PUBLIC.INSTALMENT_PLAN ip ON ip.ID = i.INSTALMENT_PLAN_ID WHERE UPPER(TRIM(ca.TYPE)) = 'INITIAL' AND UPPER(TRIM(ca.STATUS)) = 'COMPLETED' AND DATE(COALESCE(ca.EXECUTED_AT, ca.CREATED_AT)) >= '' @
        sq @ fd from @ sq @ '' AND DATE(COALESCE(ca.EXECUTED_AT, ca.CREATED_AT)) <= '' @ sq @ fd to @
        sq @ EXCL_PLAN x @ '') t''
      else
        ''SELECT COUNT(*) AS n FROM (SELECT DISTINCT ip.CONSUMER_PROFILE_ID FROM CDC_BNPL_PRODUCTION.PUBLIC.COLLECTION_ATTEMPT ca INNER JOIN CDC_BNPL_PRODUCTION.PUBLIC.COLLECTION_ATTEMPT_INSTALMENT_LINK cal ON cal.COLLECTION_ATTEMPT_ID = ca.ID INNER JOIN CDC_BNPL_PRODUCTION.PUBLIC.INSTALMENT i ON i.ID = cal.INSTALMENT_ID INNER JOIN CDC_BNPL_PRODUCTION.PUBLIC.INSTALMENT_PLAN ip ON ip.ID = i.INSTALMENT_PLAN_ID WHERE UPPER(TRIM(ca.TYPE)) = 'INITIAL' AND UPPER(TRIM(ca.STATUS)) = 'COMPLETED'' @
        sq @ EXCL_PLAN x @ '') t'')"

definition consumersWithPlanSql :: "bool \<Rightarrow> string option \<Rightarrow> string option \<Rightarrow> string" where
  "consumersWithPlanSql x from to =
     (if truthy from \<and> truthy to then
        ''SELECT COUNT(*) AS n FROM (SELECT DISTINCT CONSUMER_PROFILE_ID FROM CDC_BNPL_PRODUCTION.PUBLIC.INSTALMENT_PLAN WHERE DATE(CREATED_AT) >= '' @
        sq @ fd from @ sq @ '' AND DATE(CREATED_AT) <= '' @ sq @ fd to @ sq @ EXCL_PLAN x @ '') t''
      else
        ''SELECT COUNT(*) AS n FROM (SELECT DISTINCT CONSUMER_PROFILE_ID FROM CDC_BNPL_PRODUCTION.PUBLIC.INSTALMENT_PLAN WHERE 1=1'' @
        EXCL_PLAN x @ '') t'')"

definition loanBookSettledSql :: "bool \<Rightarrow> string option \<Rightarrow> string option \<Rightarrow> string" where
  "loanBookSettledSql x from to =
     (if truthy from \<and> truthy to then
        ''SELECT COALESCE(SUM(COALESCE(ip.QUANTITY, ip.VALUE, ip.AMOUNT, ip.TOTAL_AMOUNT, 0)), 0) AS total FROM CDC_BNPL_PRODUCTION.PUBLIC.INSTALMENT_PLAN ip WHERE DATE(ip.CREATED_AT) >= '' @
        sq @ fd from @ sq @ '' AND DATE(ip.CREATED_AT) <= '' @ sq @ fd to @ sq @ EXCL_PLAN x
      else
        ''SELECT COALESCE(SUM(COALESCE(ip.QUANTITY, ip.VALUE, ip.AMOUNT, ip.TOTAL_AMOUNT, 0)), 0) AS total FROM CDC_BNPL_PRODUCTION.PUBLIC.INSTALMENT_PLAN ip WHERE 1=1'' @
        EXCL_PLAN x)"

text \<open>\<open>s.replace(pat, rep)\<close> with a string pattern: the first occurrence only.\<close>

fun replace_first :: "string \<Rightarrow> string \<Rightarrow> string \<Rightarrow> string" where
  "replace_first pat rep [] = (if pat = [] then rep else [])"
| "replace_first pat rep (c # s) =
     (if prefix pat (c # s) then rep @ drop (length pat) (c # s)
      else c # replace_first pat rep s)"

definition loanBookCollectedSql :: "bool \<Rightarrow> string option \<Rightarrow> string option \<Rightarrow> string" where
  "loanBookCollectedSql x from to =
     (let base =
        ''SELECT COALESCE(SUM(COALESCE(i.QUANTITY, i.AMOUNT, 0)), 0) AS total FROM CDC_BNPL_PRODUCTION.PUBLIC.INSTALMENT i INNER JOIN CDC_BNPL_PRODUCTION.PUBLIC.INSTALMENT_PLAN ip ON ip.ID = i.INSTALMENT_PLAN_ID WHERE EXISTS (SELECT 1 FROM CDC_BNPL_PRODUCTION.PUBLIC.COLLECTION_ATTEMPT_INSTALMENT_LINK cail INNER JOIN CDC_BNPL_PRODUCTION.PUBLIC.COLLECTION_ATTEMPT ca ON ca.ID = cail.COLLECTION_ATTEMPT_ID WHERE cail.INSTALMENT_ID = i.ID AND UPPER(TRIM(ca.STATUS)) = 'COMPLETED')'';
          excl = replace_first ''CONSUMER_PROFILE_ID'' ''ip.CONSUMER_PROFILE_ID'' (EXCL_PLAN x)
      in
      if truthy from \<and> truthy to then
        base @ '' AND DATE(i.CREATED_AT) >= '' @ sq @ fd from @ sq @
        '' AND DATE(i.CREATED_AT) <= '' @ sq @ fd to @ sq @ excl
      else
        base @ excl)"

text \<open>\<open>s.trim()\<close>, for the white space the template of \<open>merchantBreakdownSql\<close> can start or end with.\<close>

definition is_space :: "char \<Rightarrow> bool" where
  "is_space c = (c = CHR 0x20 \<or> c = CHR 0x0A \<or> c = CHR 0x0D \<or> c = CHR 0x09)"

definition js_trim :: "string \<Rightarrow> string" where
  "js_trim s = rev (dropWhile is_space (rev (dropWhile is_space s)))"

definition merchantBreakdownSql :: "bool \<Rightarrow> string option \<Rightarrow> string option \<Rightarrow> string" where
  "merchantBreakdownSql x from to =
     (let where_clause =
        (if truthy from \<and> truthy to then
           ''WHERE (UPPER(TRIM(ip.STATUS)) = 'ACTIVE' OR UPPER(TRIM(ip.STATUS)) = 'COMPLETED') AND DATE(ip.CREATED_AT) >= '' @
           sq @ fd from @ sq @ '' AND DATE(ip.CREATED_AT) <= '' @ sq @ fd to @ sq @ EXCL_PLAN x
         else
           ''WHERE (UPPER(TRIM(ip.STATUS)) = 'ACTIVE' OR UPPER(TRIM(ip.STATUS)) = 'COMPLETED')'' @
           EXCL_PLAN x)
      in
      js_trim
        (nl @ ''SELECT COALESCE(ip.CLIENT_NAME, '(blank)') AS merchant,'' @ nl @
         ''       COUNT(*) AS plan_count,'' @ nl @
         ''       COALESCE(SUM(COALESCE(ip.QUANTITY, ip.VALUE, ip.AMOUNT, ip.TOTAL_AMOUNT, 0)), 0) AS total_plan_amount'' @ nl @
         ''FROM CDC_BNPL_PRODUCTION.PUBLIC.INSTALMENT_PLAN ip'' @ nl @
         where_clause @ nl @
         ''GROUP BY ip.CLIENT_NAME'' @ nl @
         ''ORDER BY total_plan_amount DESC'' @ nl @
         ''LIMIT 50'' @ nl))"

text \<open>The nine builders, and the timestamp column each one filters on.\<close>

datatype builder =
    AppliedCount | ApprovedCount | KycVerifiedCount | PlanCreation | InitialCollection
  | ConsumersWithPlan | LoanBookSettled | LoanBookCollected | MerchantBreakdown

fun build :: "builder \<Rightarrow> bool \<Rightarrow> string option \<Rightarrow> string option \<Rightarrow> string" where
  "build AppliedCount = appliedCountSql"
| "build ApprovedCount = approvedCountSql"
| "build KycVerifiedCount = kycVerifiedCountSql"
| "build PlanCreation = planCreationSql"
| "build InitialCollection = initialCollectionSql"
| "build ConsumersWithPlan = consumersWithPlanSql"
| "build LoanBookSettled = loanBookSettledSql"
| "build LoanBookCollected = loanBookCollectedSql"
| "build MerchantBreakdown = merchantBreakdownSql"

fun date_column :: "builder \<Rightarrow> string" where
  "date_column AppliedCount = ''CREATED_AT''"
| "date_column ApprovedCount = ''CREATED_AT''"
| "date_column KycVerifiedCount = ''CREATED_AT''"
| "date_column PlanCreation = ''COALESCE(ca.EXECUTED_AT, ca.CREATED_AT)''"
| "date_column InitialCollection = ''COALESCE(ca.EXECUTED_AT, ca.CREATED_AT)''"
| "date_column ConsumersWithPlan = ''CREATED_AT''"
| "date_column LoanBookSettled = ''ip.CREATED_AT''"
| "date_column LoanBookCollected = ''i.CREATED_AT''"
| "date_column MerchantBreakdown = ''ip.CREATED_AT''"

text \<open>
  A date-range predicate on a column: the text
  \<open>DATE(col) >= 'lo' AND DATE(col) <= 'hi'\<close>.
\<close>

definition date_range_predicate :: "string \<Rightarrow> string \<Rightarrow> string \<Rightarrow> string" where
  "date_range_predicate col lo hi =
     ''DATE('' @ col @ '') >= '' @ sq @ lo @ sq @ '' AND DATE('' @ col @ '') <= '' @ sq @ hi @ sq"

section \<open>Bounded executor (\<open>withTimeoutNull\<close>)\<close>

text \<open>
  \<open>Promise.race([promise, timeout])\<close>, the timer's promise resolving to \<open>null\<close>: the race
  settles as whichever of the two settles first. The result type is \<open>T | null\<close>: \<open>Some\<close> of
  the operation's value, or \<open>None\<close> for the timer's \<open>null\<close>.
\<close>

definition race_with_null_timer :: "'a racing \<Rightarrow> 'a option settlement" where
  "race_with_null_timer r =
     (case r of
        SettledFirst s \<Rightarrow> (case s of Fulfilled v \<Rightarrow> Fulfilled (Some v) | Rejected e \<Rightarrow> Rejected e)
      | TimerFirst _ \<Rightarrow> Fulfilled None)"

text \<open>
  \<open>withTimeoutNull\<close>: the \<open>try\<close> returns the race's value, the \<open>catch\<close> turns a rejection of the
  race into \<open>null\<close>. The result is the settlement of the promise \<open>withTimeoutNull\<close> returns.
\<close>

definition withTimeoutNull :: "'a racing \<Rightarrow> 'a option settlement" where
  "withTimeoutNull r =
     (case race_with_null_timer r of
        Fulfilled result \<Rightarrow> Fulfilled result
      | Rejected e \<Rightarrow> Fulfilled None)"

text \<open>
  JavaScript has one \<open>null\<close>: when \<open>T\<close> is itself \<open>number | null\<close>, the \<open>null\<close> the operation
  returned and the \<open>null\<close> of the timer are the same value (\<open>x ?? null\<close>).
\<close>

definition or_null :: "'a option option \<Rightarrow> 'a option" where
  "or_null x = (case x of None \<Rightarrow> None | Some v \<Rightarrow> v)"

section \<open>Aggregator (\<open>loadBnplData\<close>)\<close>

record MerchantRow =
  merchant :: string
  plan_count :: rat
  total_plan_amount :: rat

record LoanBook =
  credit_allocated :: "rat option"
  operations_settled :: "rat option"
  operations_collected :: "rat option"
  total_settled :: "rat option"
  total_collected :: "rat option"

record MerchantInfo =
  top3_volume_pct :: "rat option"
  n_merchants :: "rat option"
  by_merchant :: "MerchantRow list"

text \<open>
  \<open>BnplPayload\<close>. The fields \<open>from\<close> and \<open>to\<close> are \<open>p_from\<close> and \<open>p_to\<close> here; the optional
  \<open>error?: string\<close> is \<open>None\<close> when the property is absent.
\<close>

record BnplPayload =
  p_from :: "string option"
  p_to :: "string option"
  refreshed_at :: string
  applications :: "rat option"
  approval_rate_pct :: "rat option"
  n_applied :: "rat option"
  n_kyc_completed :: "rat option"
  n_credit_check_completed :: "rat option"
  n_plan_creation :: "rat option"
  n_initial_collection :: "rat option"
  n_consumers_with_plan :: "rat option"
  n_consumers_with_plan_all :: "rat option"
  n_overdue :: "rat option"
  loan_book :: "LoanBook option"
  total_plan_amount :: "rat option"
  first_attempt_pct :: "rat option"
  default_rate_pct :: "rat option"
  penalty_ratio_pct :: "rat option"
  merchant :: MerchantInfo
  error :: "string option"

text \<open>
  The conversions \<open>String(v)\<close> and \<open>Number(v)\<close> of the language are not defined here: the
  functions that use them take them as the arguments \<open>js_String\<close> and \<open>js_Number\<close>
  (\<open>None\<close> for \<open>NaN\<close>), and what is proved holds for every choice of them.
\<close>

definition toLowerCase :: "string \<Rightarrow> string" where
  "toLowerCase s =
     map (\<lambda>c. if 65 \<le> (of_char c :: nat) \<and> (of_char c :: nat) \<le> 90
               then char_of ((of_char c :: nat) + 32) else c) s"

definition toUpperCase :: "string \<Rightarrow> string" where
  "toUpperCase s =
     map (\<lambda>c. if 97 \<le> (of_char c :: nat) \<and> (of_char c :: nat) \<le> 122
               then char_of ((of_char c :: nat) - 32) else c) s"

text \<open>\<open>a ?? b\<close>\<close>

definition nullish_or :: "jsval \<Rightarrow> jsval \<Rightarrow> jsval" where
  "nullish_or a b = (if a = JUndefined \<or> a = JNull then b else a)"

text \<open>\<open>r[key]\<close> on the properties of an object.\<close>

definition property :: "(string \<times> jsval) list \<Rightarrow> string \<Rightarrow> jsval" where
  "property r key = (case map_of r key of None \<Rightarrow> JUndefined | Some v \<Rightarrow> v)"

text \<open>\<open>get\<close>: \<open>r[key] ?? r[key.toLowerCase()] ?? r[key.toUpperCase()]\<close>\<close>

definition get_col :: "(string \<times> jsval) list \<Rightarrow> string \<Rightarrow> jsval" where
  "get_col r key =
     nullish_or (nullish_or (property r key) (property r (toLowerCase key))) (property r (toUpperCase key))"

text \<open>\<open>Number(v) || 0\<close>: \<open>NaN\<close> becomes 0.\<close>

definition number_or_0 :: "rat option \<Rightarrow> rat" where
  "number_or_0 n = (case n of None \<Rightarrow> 0 | Some v \<Rightarrow> v)"

text \<open>
  The callback of \<open>rows.map\<close>. Reading a property of \<open>null\<close> or \<open>undefined\<close> throws
  (\<open>None\<close>); a primitive value has none of the six properties asked for.
\<close>

definition row_to_merchant ::
  "(jsval \<Rightarrow> string) \<Rightarrow> (jsval \<Rightarrow> rat option) \<Rightarrow> jsval \<Rightarrow> MerchantRow option" where
  "row_to_merchant js_String js_Number row =
     (if row = JNull \<or> row = JUndefined then None
      else
        let r = (case row of JObj kvs \<Rightarrow> kvs | _ \<Rightarrow> []) in
        Some \<lparr> MerchantRow.merchant =
                 js_String (nullish_or (nullish_or (get_col r ''merchant'') (get_col r ''MERCHANT''))
                                        (JStr ''(blank)'')),
               plan_count =
                 number_or_0 (js_Number (nullish_or (nullish_or (get_col r ''plan_count'')
                                                                 (get_col r ''PLAN_COUNT'')) (JNum 0))),
               MerchantRow.total_plan_amount =
                 number_or_0 (js_Number (nullish_or (nullish_or (get_col r ''total_plan_amount'')
                                                                 (get_col r ''TOTAL_PLAN_AMOUNT'')) (JNum 0))) \<rparr>)"

text \<open>
  \<open>loadMerchantBreakdown\<close>: everything is inside \<open>try\<close>, and the \<open>catch\<close> returns \<open>[]\<close>, for a
  rejected query as for a row whose conversion throws.
\<close>

definition loadMerchantBreakdown ::
  "(jsval \<Rightarrow> string) \<Rightarrow> (jsval \<Rightarrow> rat option) \<Rightarrow> jsval list settlement
     \<Rightarrow> MerchantRow list settlement" where
  "loadMerchantBreakdown js_String js_Number exec =
     (case exec of
        Rejected e \<Rightarrow> Fulfilled []
      | Fulfilled rows \<Rightarrow>
          if rows = [] then Fulfilled []
          else if list_all (\<lambda>row. row_to_merchant js_String js_Number row \<noteq> None) rows
          then Fulfilled (map (\<lambda>row. the (row_to_merchant js_String js_Number row)) rows)
          else Fulfilled [])"

text \<open>The thirteen queries of the batch, named after the variables that receive their results.\<close>

datatype query =
    Q_n_applied
  | Q_n_credit_check_completed
  | Q_n_kyc_completed
  | Q_n_plan_creation
  | Q_n_initial_collection
  | Q_n_consumers_with_plan
  | Q_total_settled
  | Q_total_collected
  | Q_total_plan_amount
  | Q_merchantRows
  | Q_n_consumers_with_plan_all
  | Q_n_overdue
  | Q_credit_allocated

text \<open>
  The store, as the batch sees it: for each of the thirteen queries, how its
  \<open>executeAsync\<close> call settles and whether it does so before that query's timer.
\<close>

type_synonym store = "query \<Rightarrow> jsval list racing"

text \<open>
  \<open>await p\<close> inside the \<open>try\<close> of \<open>loadBnplData\<close>: the value of a fulfilled promise is passed
  on, a rejection leaves the \<open>try\<close> block for the \<open>catch\<close>.
\<close>

definition await_then :: "'a settlement \<Rightarrow> ('a \<Rightarrow> 'b settlement) \<Rightarrow> 'b settlement" where
  "await_then p k = (case p of Fulfilled v \<Rightarrow> k v | Rejected e \<Rightarrow> Rejected e)"

text \<open>Lines 324 to 326: the approval rate.\<close>

definition approval_rate :: "rat option \<Rightarrow> rat option \<Rightarrow> rat option" where
  "approval_rate n_cc n_app =
     (case (n_cc, n_app) of
        (Some b, Some a) \<Rightarrow> if a > 0 then Some (Math_round (100 * b / a * 10) / 10) else None
      | _ \<Rightarrow> None)"

text \<open>
  Lines 336 to 343: the merchant block, from \<open>merchantRows\<close> (\<open>None\<close> for \<open>null\<close>). The two
  \<open>reduce\<close> calls add the amounts from the left, starting at 0; every sum, the product
  \<open>100 * top3Vol\<close> and the quotient are rounded to a double.
\<close>

definition merchant_block :: "MerchantRow list option \<Rightarrow> MerchantInfo" where
  "merchant_block merchantRows =
     (let byMerchant = (case merchantRows of Some rows \<Rightarrow> rows | None \<Rightarrow> []);
          totalVol = foldl (\<lambda>s r. fl (s + MerchantRow.total_plan_amount r)) 0 byMerchant;
          top3Vol = foldl (\<lambda>s r. fl (s + MerchantRow.total_plan_amount r)) 0 (take 3 byMerchant)
      in \<lparr> top3_volume_pct =
              (if totalVol > 0 then Some (Math_round (fl (fl (100 * top3Vol) / totalVol)))
               else None),
            n_merchants = Some (of_nat (length byMerchant)),
            by_merchant = byMerchant \<rparr>)"

text \<open>The payload \<open>loadBnplData\<close> starts from, every metric \<open>null\<close>.\<close>

definition initial_payload :: "string option \<Rightarrow> string option \<Rightarrow> string \<Rightarrow> BnplPayload" where
  "initial_payload from to now =
     \<lparr> p_from = from, p_to = to, refreshed_at = now,
       applications = None, approval_rate_pct = None, n_applied = None,
       n_kyc_completed = None, n_credit_check_completed = None, n_plan_creation = None,
       n_initial_collection = None, n_consumers_with_plan = None,
       n_consumers_with_plan_all = None, n_overdue = None, loan_book = None,
       total_plan_amount = None, first_attempt_pct = None, default_rate_pct = None,
       penalty_ratio_pct = None,
       merchant = \<lparr> top3_volume_pct = None, n_merchants = None, by_merchant = [] \<rparr>,
       error = None \<rparr>"

text \<open>
  The \<open>try\<close> block of \<open>loadBnplData\<close>. \<open>Promise.all\<close> is fulfilled with the thirteen values
  when all thirteen promises are, and rejected when one is; then the assignments to the
  payload follow.
\<close>

definition batch ::
  "(jsval \<Rightarrow> string) \<Rightarrow> (jsval \<Rightarrow> rat option) \<Rightarrow> store \<Rightarrow> BnplPayload \<Rightarrow> BnplPayload settlement" where
  "batch js_String js_Number st payload =
     await_then (withTimeoutNull (then_async runCount (st Q_n_applied))) (\<lambda>n_applied.
     await_then (withTimeoutNull (then_async runCount (st Q_n_credit_check_completed))) (\<lambda>n_credit_check_completed.
     await_then (withTimeoutNull (then_async runCount (st Q_n_kyc_completed))) (\<lambda>n_kyc_completed.
     await_then (withTimeoutNull (then_async runCount (st Q_n_plan_creation))) (\<lambda>n_plan_creation.
     await_then (withTimeoutNull (then_async runCount (st Q_n_initial_collection))) (\<lambda>n_initial_collection.
     await_then (withTimeoutNull (then_async runCount (st Q_n_consumers_with_plan))) (\<lambda>n_consumers_with_plan.
     await_then (withTimeoutNull (then_async runScalar (st Q_total_settled))) (\<lambda>total_settled.
     await_then (withTimeoutNull (then_async runScalar (st Q_total_collected))) (\<lambda>total_collected.
     await_then (withTimeoutNull (then_async runScalar (st Q_total_plan_amount))) (\<lambda>total_plan_amount.
     await_then (withTimeoutNull (then_async (loadMerchantBreakdown js_String js_Number) (st Q_merchantRows))) (\<lambda>merchantRows.
     await_then (withTimeoutNull (then_async runCount (st Q_n_consumers_with_plan_all))) (\<lambda>n_consumers_with_plan_all.
     await_then (withTimeoutNull (then_async runCount (st Q_n_overdue))) (\<lambda>n_overdue.
     await_then (withTimeoutNull (then_async runScalar (st Q_credit_allocated))) (\<lambda>credit_allocated.
     Fulfilled (payload
       \<lparr> n_applied := or_null n_applied,
         n_credit_check_completed := or_null n_credit_check_completed,
         n_kyc_completed := or_null n_kyc_completed,
         n_plan_creation := or_null n_plan_creation,
         n_initial_collection := or_null n_initial_collection,
         n_consumers_with_plan := or_null n_consumers_with_plan,
         n_consumers_with_plan_all := or_null n_consumers_with_plan_all,
         n_overdue := or_null n_overdue,
         applications := or_null n_initial_collection,
         approval_rate_pct :=
           (case approval_rate (or_null n_credit_check_completed) (or_null n_applied) of
              Some r \<Rightarrow> Some r
            | None \<Rightarrow> approval_rate_pct payload),
         BnplPayload.total_plan_amount := or_null total_plan_amount,
         loan_book := Some \<lparr> credit_allocated = or_null credit_allocated,
                              operations_settled = or_null total_settled,
                              operations_collected = or_null total_collected,
                              total_settled = or_null total_settled,
                              total_collected = or_null total_collected \<rparr>,
         BnplPayload.merchant := merchant_block merchantRows \<rparr>))))))))))))))"

text \<open>
  \<open>loadBnplData\<close>: the dates cut to ten characters, the initial payload, the \<open>try\<close> block,
  and the \<open>catch\<close> that writes the message into \<open>error\<close>. \<open>now\<close> is what
  \<open>new Date().toISOString()\<close> returns.
\<close>

definition loadBnplData ::
  "(jsval \<Rightarrow> string) \<Rightarrow> (jsval \<Rightarrow> rat option) \<Rightarrow> string \<Rightarrow> store
     \<Rightarrow> string option \<Rightarrow> string option \<Rightarrow> BnplPayload" where
  "loadBnplData js_String js_Number now st fromDate toDate =
     (let from = map_option (take 10) fromDate;
          to = map_option (take 10) toDate;
          payload = initial_payload from to now
      in case batch js_String js_Number st payload of
           Fulfilled p \<Rightarrow> p
         | Rejected e \<Rightarrow> payload \<lparr> error := Some (error_message e) \<rparr>)"

text \<open>The SQL text each query of the batch executes.\<close>

definition OVERDUE_COUNT_SQL :: string where
  "OVERDUE_COUNT_SQL =
     ''SELECT COUNT(*) AS n FROM CDC_BNPL_PRODUCTION.PUBLIC.INSTALMENT i WHERE i.next_execution_date IS NOT NULL AND (UPPER(TRIM(i.status)) = 'PENDING' OR UPPER(TRIM(i.status)) = 'OVERDUE')''"

definition CREDIT_ALLOCATED_SQL :: string where
  \<open>CREDIT_ALLOCATED_SQL =
     ''SELECT COALESCE(SUM(CREDIT_LIMIT), 0) AS total FROM "CDC_CREDITMASTER_PRODUCTION"."PUBLIC"."CREDIT_BALANCE"''\<close>

fun query_sql :: "bool \<Rightarrow> string option \<Rightarrow> string option \<Rightarrow> query \<Rightarrow> string" where
  "query_sql x from to Q_n_applied = appliedCountSql x from to"
| "query_sql x from to Q_n_credit_check_completed = approvedCountSql x from to"
| "query_sql x from to Q_n_kyc_completed = kycVerifiedCountSql x from to"
| "query_sql x from to Q_n_plan_creation = planCreationSql x from to"
| "query_sql x from to Q_n_initial_collection = initialCollectionSql x from to"
| "query_sql x from to Q_n_consumers_with_plan = consumersWithPlanSql x from to"
| "query_sql x from to Q_total_settled = loanBookSettledSql x from to"
| "query_sql x from to Q_total_collected = loanBookCollectedSql x from to"
| "query_sql x from to Q_total_plan_amount = loanBookSettledSql x from to"
| "query_sql x from to Q_merchantRows = merchantBreakdownSql x from to"
| "query_sql x from to Q_n_consumers_with_plan_all = consumersWithPlanSql x None None"
| "query_sql x from to Q_n_overdue = OVERDUE_COUNT_SQL"
| "query_sql x from to Q_credit_allocated = CREDIT_ALLOCATED_SQL"

section \<open>Entry point (\<open>GET /api/bnpl\<close>)\<close>

definition emptyPayload :: "string option \<Rightarrow> string option \<Rightarrow> string \<Rightarrow> string \<Rightarrow> BnplPayload" where
  "emptyPayload from to now err =
     \<lparr> p_from = from, p_to = to, refreshed_at = now,
       applications = None, approval_rate_pct = None, n_applied = None,
       n_kyc_completed = None, n_credit_check_completed = None, n_plan_creation = None,
       n_initial_collection = None, n_consumers_with_plan = None,
       n_consumers_with_plan_all = None, n_overdue = None, loan_book = None,
       total_plan_amount = None, first_attempt_pct = None, default_rate_pct = None,
       penalty_ratio_pct = None,
       merchant = \<lparr> top3_volume_pct = None, n_merchants = None, by_merchant = [] \<rparr>,
       error = Some err \<rparr>"

text \<open>The message of the error \<open>withTimeout\<close> rejects with; the dash is U+2014.\<close>

definition timeout_message :: string where
  "timeout_message =
     ''Request timed out. Snowflake took too long '' @ [CHR 0xE2, CHR 0x80, CHR 0x94] @
     '' try a smaller date range or try again.''"

text \<open>
  \<open>withTimeout\<close>: rejects when its timer fires before the promise settles, and settles as
  the promise otherwise.
\<close>

definition withTimeout :: "'a racing \<Rightarrow> 'a settlement" where
  "withTimeout r =
     (case r of
        SettledFirst s \<Rightarrow> s
      | TimerFirst _ \<Rightarrow> Rejected (ErrorObj timeout_message))"

text \<open>
  What one request meets: the query parameters, the clock, the language's conversions,
  how acquiring the session settles (\<open>createConnection\<close> and \<open>connectAsync\<close>), the store,
  and whether the 55 second timer of the route fires before \<open>withConnection\<close> has settled.
\<close>

record request =
  param_from :: "string option"
  param_to :: "string option"
  clock :: string
  conv_String :: "jsval \<Rightarrow> string"
  conv_Number :: "jsval \<Rightarrow> rat option"
  connect :: "unit settlement"
  replies :: store
  outer_timer_first :: bool

record response =
  status :: nat
  body :: BnplPayload

definition GET :: "request \<Rightarrow> response" where
  "GET rq =
     (let from = param_from rq;
          to = param_to rq;
          work = withConnection (connect rq)
                   (Fulfilled (loadBnplData (conv_String rq) (conv_Number rq) (clock rq)
                                 (replies rq) from to))
      in case withTimeout (if outer_timer_first rq then TimerFirst (Some work)
                           else SettledFirst work) of
           Fulfilled payload \<Rightarrow> \<lparr> status = 200, body = payload \<rparr>
         | Rejected err \<Rightarrow>
             \<lparr> status = 500, body = emptyPayload from to (clock rq) (error_message err) \<rparr>)"

text \<open>Every metric of a payload is \<open>null\<close>, the list of merchants empty.\<close>

definition all_metrics_null :: "BnplPayload \<Rightarrow> bool" where
  "all_metrics_null p =
     (applications p = None \<and> approval_rate_pct p = None \<and> n_applied p = None
      \<and> n_kyc_completed p = None \<and> n_credit_check_completed p = None
      \<and> n_plan_creation p = None \<and> n_initial_collection p = None
      \<and> n_consumers_with_plan p = None \<and> n_consumers_with_plan_all p = None
      \<and> n_overdue p = None \<and> loan_book p = None \<and> BnplPayload.total_plan_amount p = None
      \<and> first_attempt_pct p = None \<and> default_rate_pct p = None
      \<and> penalty_ratio_pct p = None
      \<and> BnplPayload.merchant p = \<lparr> top3_volume_pct = None, n_merchants = None, by_merchant = [] \<rparr>)"

section \<open>Dashboard page (\<open>app/page.tsx\<close>): funnel drop-offs\<close>

text \<open>
  The page holds \<open>data\<close>, a payload or \<open>null\<close>. \<open>d?.n_applied ?? 0\<close> reads a count, with 0 for
  a missing payload and for a \<open>null\<close> field.
\<close>

definition count_or_0 :: "(BnplPayload \<Rightarrow> rat option) \<Rightarrow> BnplPayload option \<Rightarrow> rat" where
  "count_or_0 field d =
     (case d of None \<Rightarrow> 0 | Some p \<Rightarrow> (case field p of None \<Rightarrow> 0 | Some v \<Rightarrow> v))"

definition nApplied :: "BnplPayload option \<Rightarrow> rat" where
  "nApplied d = count_or_0 n_applied d"

definition nKyc :: "BnplPayload option \<Rightarrow> rat" where
  "nKyc d = count_or_0 n_kyc_completed d"

definition nCredit :: "BnplPayload option \<Rightarrow> rat" where
  "nCredit d = count_or_0 n_credit_check_completed d"

definition nPlan :: "BnplPayload option \<Rightarrow> rat" where
  "nPlan d = count_or_0 n_plan_creation d"

definition nInitial :: "BnplPayload option \<Rightarrow> rat" where
  "nInitial d = count_or_0 n_initial_collection d"

definition dropKyc :: "BnplPayload option \<Rightarrow> rat" where
  "dropKyc d = max 0 (nApplied d - nKyc d)"

definition dropCredit :: "BnplPayload option \<Rightarrow> rat" where
  "dropCredit d = max 0 (nKyc d - nCredit d)"

definition dropPlan :: "BnplPayload option \<Rightarrow> rat" where
  "dropPlan d = max 0 (nCredit d - nPlan d)"

definition dropInitial :: "BnplPayload option \<Rightarrow> rat" where
  "dropInitial d = max 0 (nPlan d - nInitial d)"

text \<open>A number in a condition (\<open>nApplied ? \<dots> : 0\<close>) counts as true when it is not 0.\<close>

definition pctDropKyc :: "BnplPayload option \<Rightarrow> rat" where
  "pctDropKyc d = (if nApplied d \<noteq> 0 then Math_round (1000 * dropKyc d / nApplied d) / 10 else 0)"

definition pctDropCredit :: "BnplPayload option \<Rightarrow> rat" where
  "pctDropCredit d = (if nKyc d \<noteq> 0 then Math_round (1000 * dropCredit d / nKyc d) / 10 else 0)"

definition pctDropPlan :: "BnplPayload option \<Rightarrow> rat" where
  "pctDropPlan d = (if nCredit d \<noteq> 0 then Math_round (1000 * dropPlan d / nCredit d) / 10 else 0)"

definition pctDropInitial :: "BnplPayload option \<Rightarrow> rat" where
  "pctDropInitial d = (if nPlan d \<noteq> 0 then Math_round (1000 * dropInitial d / nPlan d) / 10 else 0)"







section \<open>What the specification says, for comparison\<close>

text \<open>\<open>round(x, 1)\<close>: \<open>x\<close> rounded to one decimal, the nearest multiple of one tenth.\<close>

definition round1 :: "rat \<Rightarrow> rat" where
  "round1 x = of_int \<lfloor>x * 10 + 1 / 2\<rfloor> / 10"

text \<open>
  The drop-off percentage as the specification has it: a value when the earlier stage's
  count is present and positive, unknown otherwise.
\<close>

definition spec_dropoff_pct :: "rat option \<Rightarrow> rat \<Rightarrow> rat option" where
  "spec_dropoff_pct countPrev dropCount =
     (case countPrev of
        None \<Rightarrow> None
      | Some c \<Rightarrow> if c > 0 then Some (Math_round (1000 * dropCount / c) / 10) else None)"




text \<open>
  The concentration share as the specification has it, computed exactly:
  \<open>round(100 * sum(volume of first 3 rows) / sum(volume of all rows))\<close> when the total is
  positive, unknown otherwise.
\<close>

definition spec_top3_share :: "MerchantRow list \<Rightarrow> rat option" where
  "spec_top3_share rows =
     (let total = sum_list (map MerchantRow.total_plan_amount rows);
          top3 = sum_list (map MerchantRow.total_plan_amount (take 3 rows))
      in if 0 < total then Some (Math_round (100 * top3 / total)) else None)"

section \<open>Reading the results\<close>

text \<open>What \<open>await withTimeoutNull(p, ms)\<close> evaluates to, for each way \<open>p\<close> can race the timer.\<close>

definition bounded_result :: "'a racing \<Rightarrow> 'a option" where
  "bounded_result r =
     (case r of
        SettledFirst s \<Rightarrow> (case s of Fulfilled v \<Rightarrow> Some v | Rejected e \<Rightarrow> None)
      | TimerFirst _ \<Rightarrow> None)"

text \<open>
  What a payload shows for one query of the batch: a number or \<open>null\<close>, or the list of
  merchant rows.
\<close>

datatype shown = Number "rat option" | Breakdown "MerchantRow list"

fun shown_for :: "query \<Rightarrow> BnplPayload \<Rightarrow> shown" where
  "shown_for Q_n_applied p = Number (n_applied p)"
| "shown_for Q_n_credit_check_completed p = Number (n_credit_check_completed p)"
| "shown_for Q_n_kyc_completed p = Number (n_kyc_completed p)"
| "shown_for Q_n_plan_creation p = Number (n_plan_creation p)"
| "shown_for Q_n_initial_collection p = Number (n_initial_collection p)"
| "shown_for Q_n_consumers_with_plan p = Number (n_consumers_with_plan p)"
| "shown_for Q_total_settled p =
     Number (case loan_book p of None \<Rightarrow> None | Some lb \<Rightarrow> total_settled lb)"
| "shown_for Q_total_collected p =
     Number (case loan_book p of None \<Rightarrow> None | Some lb \<Rightarrow> total_collected lb)"
| "shown_for Q_total_plan_amount p = Number (BnplPayload.total_plan_amount p)"
| "shown_for Q_merchantRows p = Breakdown (by_merchant (BnplPayload.merchant p))"
| "shown_for Q_n_consumers_with_plan_all p = Number (n_consumers_with_plan_all p)"
| "shown_for Q_n_overdue p = Number (n_overdue p)"
| "shown_for Q_credit_allocated p =
     Number (case loan_book p of None \<Rightarrow> None | Some lb \<Rightarrow> credit_allocated lb)"

text \<open>The values the batch receives for a count query, a scalar query and the breakdown.\<close>

definition count_of :: "store \<Rightarrow> query \<Rightarrow> rat option" where
  "count_of st q = or_null (bounded_result (then_async runCount (st q)))"

definition scalar_of :: "store \<Rightarrow> query \<Rightarrow> rat option" where
  "scalar_of st q = or_null (bounded_result (then_async runScalar (st q)))"

definition rows_of :: "(jsval \<Rightarrow> string) \<Rightarrow> (jsval \<Rightarrow> rat option) \<Rightarrow> store \<Rightarrow> MerchantRow list option" where
  "rows_of S N st = bounded_result (then_async (loadMerchantBreakdown S N) (st Q_merchantRows))"

text \<open>Concrete inputs for the examples: a store that answers every query at once with one
  row holding the number 5, conversions that read numbers and strings as they are, and a
  request whose connection succeeds.\<close>

definition sample_store :: store where
  "sample_store = (\<lambda>q. SettledFirst (Fulfilled [JObj [(''N'', JNum 5)]]))"

definition sample_String :: "jsval \<Rightarrow> string" where
  "sample_String v = (case v of JStr s \<Rightarrow> s | _ \<Rightarrow> [])"

definition sample_Number :: "jsval \<Rightarrow> rat option" where
  "sample_Number v = (case v of JNum n \<Rightarrow> Some n | _ \<Rightarrow> None)"

definition sample_request :: "unit settlement \<Rightarrow> bool \<Rightarrow> request" where
  "sample_request c late =
     \<lparr> param_from = Some ''2024-01-01'', param_to = Some ''2024-01-31'',
       clock = ''2024-02-01T00:00:00.000Z'',
       conv_String = sample_String, conv_Number = sample_Number,
       connect = c, replies = sample_store, outer_timer_first = late \<rparr>"

text \<open>
  A payload with the five funnel counts given, and the volume of a list of merchant rows
  added up as the code does, in doubles.
\<close>

definition funnel_payload ::
  "rat option \<Rightarrow> rat option \<Rightarrow> rat option \<Rightarrow> rat option \<Rightarrow> rat option \<Rightarrow> BnplPayload" where
  "funnel_payload a k c p i =
     (initial_payload None None [])
       \<lparr> n_applied := a, n_kyc_completed := k, n_credit_check_completed := c,
         n_plan_creation := p, n_initial_collection := i \<rparr>"

definition double_sum :: "MerchantRow list \<Rightarrow> rat" where
  "double_sum rows = foldl (\<lambda>s r. fl (s + MerchantRow.total_plan_amount r)) 0 rows"

text \<open>
  A query of the batch has failed when it rejects or its timer fires first. A store on
  which every query rejects, and the payload \<open>loadBnplData\<close> then returns.
\<close>

definition query_failed :: "'a racing \<Rightarrow> bool" where
  "query_failed r =
     (case r of
        SettledFirst s \<Rightarrow> (case s of Fulfilled v \<Rightarrow> False | Rejected e \<Rightarrow> True)
      | TimerFirst late \<Rightarrow> True)"

definition failing_store :: store where
  "failing_store = (\<lambda>q. SettledFirst (Rejected (ErrorObj ''Network error'')))"

definition all_queries_failed_payload :: "string option \<Rightarrow> string option \<Rightarrow> string \<Rightarrow> BnplPayload" where
  "all_queries_failed_payload from to now =
     (initial_payload from to now)
       \<lparr> loan_book := Some \<lparr> credit_allocated = None, operations_settled = None,
                            operations_collected = None, total_settled = None,
                            total_collected = None \<rparr>,
         BnplPayload.merchant :=
           \<lparr> top3_volume_pct = None, n_merchants = Some 0, by_merchant = [] \<rparr> \<rparr>"

text \<open>
  Five merchants with the amounts 300.99, 35.5, 28.16, 21.88 and 3.47, each the double
  nearest to the decimal.
\<close>

definition decimal_rows :: "MerchantRow list" where
  "decimal_rows =
     [ \<lparr> MerchantRow.merchant = ''A'', plan_count = 1, MerchantRow.total_plan_amount = fl (30099 / 100) \<rparr>,
       \<lparr> MerchantRow.merchant = ''B'', plan_count = 1, MerchantRow.total_plan_amount = fl (355 / 10) \<rparr>,
       \<lparr> MerchantRow.merchant = ''C'', plan_count = 1, MerchantRow.total_plan_amount = fl (2816 / 100) \<rparr>,
       \<lparr> MerchantRow.merchant = ''D'', plan_count = 1, MerchantRow.total_plan_amount = fl (2188 / 100) \<rparr>,
       \<lparr> MerchantRow.merchant = ''E'', plan_count = 1, MerchantRow.total_plan_amount = fl (347 / 100) \<rparr> ]"

section \<open>Theorems\<close>

subsection \<open>Powers of two\<close>

lemma pow2_pos: "0 < (2::rat) powi k"
  by simp

lemma pow2_mono: "k \<le> l \<Longrightarrow> (2::rat) powi k \<le> 2 powi l"
  by (rule power_int_increasing) simp_all

lemma pow2_strict_mono: "k < l \<Longrightarrow> (2::rat) powi k < 2 powi l"
  by (rule power_int_strict_increasing) simp_all

lemma pow2_Suc: "(2::rat) powi (k + 1) = 2 * 2 powi k"
  by (simp add: power_int_add_1)

lemma pow2_diff: "(2::rat) powi (k - l) = 2 powi k / 2 powi l"
  by (simp add: power_int_diff)

lemma bitlen_rat_bounds:
  assumes "0 < p"
  shows "(2::rat) powi (bitlen p - 1) \<le> of_int p" "of_int p < (2::rat) powi (bitlen p)"
proof -
  from assms have b: "1 \<le> bitlen p"
    by (auto simp: bitlen_alt_def)
  from bitlen_bounds [OF assms]
  have lo: "2 ^ nat (bitlen p - 1) \<le> p" and hi: "p < 2 ^ nat (bitlen p)"
    by simp_all
  from lo have "(of_int (2 ^ nat (bitlen p - 1)) :: rat) \<le> of_int p"
    by (simp only: of_int_le_iff)
  with b show "(2::rat) powi (bitlen p - 1) \<le> of_int p"
    by (simp add: power_int_def)
  from hi have "(of_int p :: rat) < of_int (2 ^ nat (bitlen p))"
    by (simp only: of_int_less_iff)
  with b show "of_int p < (2::rat) powi (bitlen p)"
    by (simp add: power_int_def)
qed

subsection \<open>The exponent\<close>

lemma expo_bounds:
  assumes "0 < x"
  shows "2 powi (expo x) \<le> x" "x < 2 powi (expo x + 1)"
proof -
  obtain p q where pq: "quotient_of x = (p, q)"
    by force
  then have q: "0 < q" and x: "x = of_int p / of_int q"
    by (simp_all add: quotient_of_denom_pos quotient_of_div)
  with assms have p: "0 < p"
    by (simp add: zero_less_divide_iff)
  define d where "d = bitlen p - bitlen q"
  note bp = bitlen_rat_bounds [OF p] and bq = bitlen_rat_bounds [OF q]
  have qpos: "(0::rat) < of_int q"
    using q by simp
  have "x < 2 powi (bitlen p) / 2 powi (bitlen q - 1)"
    unfolding x using bp bq qpos p
    by (intro frac_less) (simp_all add: less_imp_le)
  also have "\<dots> = 2 powi (d + 1)"
    by (simp add: d_def flip: pow2_diff) (simp add: algebra_simps)
  finally have hi: "x < 2 powi (d + 1)" .
  have "2 powi (bitlen p - 1) / 2 powi (bitlen q) \<le> x"
    unfolding x using bp bq qpos p
    by (intro frac_le) (simp_all add: less_imp_le)
  moreover have "2 powi (bitlen p - 1) / 2 powi (bitlen q) = (2::rat) powi (d - 1)"
    by (simp add: d_def flip: pow2_diff) (simp add: algebra_simps)
  ultimately have lo: "2 powi (d - 1) \<le> x"
    by simp
  have e: "expo x = (if 2 powi d \<le> x then d else d - 1)"
    by (simp add: expo_def pq d_def Let_def)
  show "2 powi (expo x) \<le> x"
    using lo by (simp add: e)
  show "x < 2 powi (expo x + 1)"
    using hi by (auto simp: e not_le)
qed

lemma expo_unique:
  assumes "2 powi k \<le> x" "x < 2 powi (k + 1)"
  shows "expo x = k"
proof -
  have "0 < x"
    using assms(1) pow2_pos [of k] by linarith
  note b = expo_bounds [OF this]
  have "\<not> expo x < k"
  proof
    assume "expo x < k"
    then have "2 powi (expo x + 1) \<le> (2::rat) powi k"
      by (intro pow2_mono) simp
    with b assms show False
      by linarith
  qed
  moreover have "\<not> k < expo x"
  proof
    assume "k < expo x"
    then have "2 powi (k + 1) \<le> (2::rat) powi (expo x)"
      by (intro pow2_mono) simp
    with b assms show False
      by linarith
  qed
  ultimately show ?thesis
    by simp
qed

lemma expo_mono:
  assumes "0 < x" "x \<le> y"
  shows "expo x \<le> expo y"
proof (rule ccontr)
  assume "\<not> expo x \<le> expo y"
  then have "2 powi (expo y + 1) \<le> (2::rat) powi (expo x)"
    by (intro pow2_mono) simp
  moreover from assms have "0 < y"
    by simp
  note expo_bounds [OF assms(1)] expo_bounds [OF this]
  ultimately show False
    using assms by linarith
qed

subsection \<open>Rounding to an integer, ties to even\<close>

lemma round_half_even_cases:
  "round_half_even y = \<lfloor>y\<rfloor> \<or> round_half_even y = \<lfloor>y\<rfloor> + 1"
  by (simp add: round_half_even_def Let_def)

lemma round_half_even_close: "\<bar>of_int (round_half_even y) - y\<bar> \<le> 1 / 2"
proof -
  have "of_int \<lfloor>y\<rfloor> \<le> y" "y < of_int \<lfloor>y\<rfloor> + 1"
    by linarith+
  then show ?thesis
    by (auto simp: round_half_even_def Let_def)
qed

lemma round_half_even_int: "round_half_even (of_int k) = k"
  by (simp add: round_half_even_def)

lemma round_half_even_mono:
  assumes "y \<le> z"
  shows "round_half_even y \<le> round_half_even z"
proof (cases "\<lfloor>y\<rfloor> = \<lfloor>z\<rfloor>")
  case True
  with assms show ?thesis
    by (auto simp: round_half_even_def Let_def)
next
  case False
  with assms have "\<lfloor>y\<rfloor> + 1 \<le> \<lfloor>z\<rfloor>"
    using floor_mono [OF assms] by linarith
  moreover have "\<lfloor>z\<rfloor> \<le> round_half_even z" "round_half_even y \<le> \<lfloor>y\<rfloor> + 1"
    using round_half_even_cases [of y] round_half_even_cases [of z] by auto
  ultimately show ?thesis
    by linarith
qed

subsection \<open>Rounding a positive number to 53 bits\<close>

lemma scaled_bounds:
  assumes "0 < x"
  shows "2 ^ 52 \<le> x / 2 powi (expo x - 52)" "x / 2 powi (expo x - 52) < 2 ^ 53"
proof -
  have u: "(2::rat) powi (expo x - 52) = 2 powi (expo x) / 2 ^ 52"
    by (simp add: pow2_diff)
  have v: "(2::rat) powi (expo x + 1) = 2 * 2 powi (expo x)"
    by (rule pow2_Suc)
  from expo_bounds [OF assms] pow2_pos [of "expo x"]
  show "2 ^ 52 \<le> x / 2 powi (expo x - 52)" "x / 2 powi (expo x - 52) < 2 ^ 53"
    unfolding u v by (simp_all add: field_simps)
qed

lemma mantissa_bounds:
  assumes "0 < x"
  shows "2 ^ 52 \<le> round_half_even (x / 2 powi (expo x - 52))"
    "round_half_even (x / 2 powi (expo x - 52)) \<le> 2 ^ 53"
proof -
  note s = scaled_bounds [OF assms]
  have "round_half_even (of_int (2 ^ 52)) \<le> round_half_even (x / 2 powi (expo x - 52))"
    using s(1) by (intro round_half_even_mono) simp
  then show "2 ^ 52 \<le> round_half_even (x / 2 powi (expo x - 52))"
    by (simp only: round_half_even_int)
  have "round_half_even (x / 2 powi (expo x - 52)) \<le> round_half_even (of_int (2 ^ 53))"
    using s(2) by (intro round_half_even_mono) simp
  then show "round_half_even (x / 2 powi (expo x - 52)) \<le> 2 ^ 53"
    by (simp only: round_half_even_int)
qed

lemma fl_pos_bounds:
  assumes "0 < x"
  shows "2 powi (expo x) \<le> fl_pos x" "fl_pos x \<le> 2 powi (expo x + 1)"
proof -
  define u :: rat where "u = 2 powi (expo x - 52)"
  define m where "m = round_half_even (x / u)"
  have upos: "0 < u"
    by (simp add: u_def)
  have f: "fl_pos x = of_int m * u"
    by (simp add: fl_pos_def u_def m_def Let_def)
  have e: "2 powi (expo x) = 2 ^ 52 * u" "2 powi (expo x + 1) = 2 ^ 53 * u"
    by (simp_all add: u_def pow2_diff pow2_Suc)
  from mantissa_bounds [OF assms]
  have "(2::rat) ^ 52 \<le> of_int m" "(of_int m :: rat) \<le> 2 ^ 53"
    unfolding m_def u_def
    by (metis of_int_le_iff of_int_numeral of_int_power)+
  with upos show "2 powi (expo x) \<le> fl_pos x" "fl_pos x \<le> 2 powi (expo x + 1)"
    unfolding f e by simp_all
qed

lemma fl_pos_pos: "0 < x \<Longrightarrow> 0 < fl_pos x"
  using fl_pos_bounds(1) [of x] pow2_pos [of "expo x"] by linarith

lemma fl_pos_error:
  assumes "0 < x"
  shows "\<bar>fl_pos x - x\<bar> \<le> x / 2 ^ 53"
proof -
  define u :: rat where "u = 2 powi (expo x - 52)"
  define m where "m = round_half_even (x / u)"
  have upos: "0 < u"
    by (simp add: u_def)
  have f: "fl_pos x = of_int m * u"
    by (simp add: fl_pos_def u_def m_def Let_def)
  have "\<bar>of_int m - x / u\<bar> \<le> 1 / 2"
    unfolding m_def by (rule round_half_even_close)
  then have "\<bar>of_int m - x / u\<bar> * u \<le> 1 / 2 * u"
    using upos by (intro mult_right_mono) simp_all
  moreover have "\<bar>of_int m - x / u\<bar> * u = \<bar>(of_int m - x / u) * u\<bar>"
    using upos by (simp add: abs_mult)
  moreover have "(of_int m - x / u) * u = of_int m * u - x"
    using upos by (simp add: left_diff_distrib)
  ultimately have c: "\<bar>fl_pos x - x\<bar> \<le> u / 2"
    by (simp add: f)
  have "2 ^ 52 * u \<le> x"
    using expo_bounds(1) [OF assms] by (simp add: u_def pow2_diff)
  then have "u / 2 \<le> x / 2 ^ 53"
    by simp
  with c show ?thesis
    by linarith
qed

lemma fl_pos_mono:
  assumes "0 < x" "x \<le> y"
  shows "fl_pos x \<le> fl_pos y"
proof (cases "expo x = expo y")
  case True
  have "x / 2 powi (expo y - 52) \<le> y / 2 powi (expo y - 52)"
    using assms pow2_pos [of "expo y - 52"] by (simp add: divide_right_mono)
  then have "round_half_even (x / 2 powi (expo y - 52)) \<le> round_half_even (y / 2 powi (expo y - 52))"
    by (rule round_half_even_mono)
  then show ?thesis
    by (simp add: fl_pos_def True Let_def)
next
  case False
  with expo_mono [OF assms] have "expo x + 1 \<le> expo y"
    by simp
  then have "2 powi (expo x + 1) \<le> (2::rat) powi (expo y)"
    by (rule pow2_mono)
  moreover from assms have "0 < y"
    by simp
  note fl_pos_bounds(2) [OF assms(1)] fl_pos_bounds(1) [OF this]
  ultimately show ?thesis
    by linarith
qed

lemma fl_pos_idem:
  assumes "0 < x"
  shows "fl_pos (fl_pos x) = fl_pos x"
proof -
  define u :: rat where "u = 2 powi (expo x - 52)"
  define m where "m = round_half_even (x / u)"
  have upos: "0 < u"
    by (simp add: u_def)
  have f: "fl_pos x = of_int m * u"
    by (simp add: fl_pos_def u_def m_def Let_def)
  from mantissa_bounds [OF assms] have m: "2 ^ 52 \<le> m" "m \<le> 2 ^ 53"
    by (simp_all add: m_def u_def)
  show ?thesis
  proof (cases "m = 2 ^ 53")
    case True
    then have w: "fl_pos x = 2 powi (expo x + 1)"
      by (simp add: f u_def pow2_diff pow2_Suc)
    have ex: "expo (2 powi (expo x + 1)) = expo x + 1"
      by (rule expo_unique) (simp_all add: pow2_strict_mono)
    define a :: rat where "a = 2 powi (expo x + 1)"
    define b :: rat where "b = 2 powi (expo x + 1 - 52)"
    define c :: rat where "c = of_int (2 ^ 52)"
    have cpos: "0 < c"
      by (simp add: c_def)
    have "b = a / 2 powi 52"
      unfolding a_def b_def by (rule pow2_diff)
    then have b: "b = a / c"
      by (simp add: c_def)
    have q: "a / b = c"
      using cpos pow2_pos [of "expo x + 1"] by (simp add: b a_def)
    have r: "c * b = a"
      using cpos by (simp add: b)
    have "fl_pos (fl_pos x)
        = of_int (round_half_even (fl_pos x / 2 powi (expo (fl_pos x) - 52)))
          * 2 powi (expo (fl_pos x) - 52)"
      by (simp add: fl_pos_def Let_def)
    also have "\<dots> = of_int (round_half_even (a / b)) * b"
      unfolding w ex a_def b_def ..
    also have "\<dots> = of_int (round_half_even (of_int (2 ^ 52))) * b"
      unfolding q c_def ..
    also have "\<dots> = c * b"
      unfolding c_def by (simp only: round_half_even_int)
    finally show ?thesis
      by (simp only: r w a_def)
  next
    case False
    with m have "m < 2 ^ 53"
      by simp
    then have "(of_int m :: rat) < 2 ^ 53"
      by (metis of_int_less_iff of_int_numeral of_int_power)
    then have "fl_pos x < 2 powi (expo x + 1)"
      using upos by (simp add: f u_def pow2_diff pow2_Suc)
    with fl_pos_bounds(1) [OF assms] have "expo (fl_pos x) = expo x"
      by (intro expo_unique)
    then show ?thesis
      using upos by (simp add: fl_pos_def Let_def f u_def [symmetric] round_half_even_int)
  qed
qed

subsection \<open>Rounding any number\<close>

lemma fl_0: "fl 0 = 0"
  by (simp add: fl_def)

lemma fl_nonneg: "0 \<le> x \<Longrightarrow> 0 \<le> fl x"
  using fl_pos_pos [of x] by (auto simp: fl_def)

lemma fl_pos_iff: "0 < x \<Longrightarrow> 0 < fl x"
  using fl_pos_pos [of x] by (simp add: fl_def)

lemma fl_mono: "0 \<le> x \<Longrightarrow> x \<le> y \<Longrightarrow> fl x \<le> fl y"
  using fl_pos_mono [of x y] fl_pos_pos [of y] by (auto simp: fl_def)

lemma fl_idem: "0 \<le> x \<Longrightarrow> fl (fl x) = fl x"
  using fl_pos_idem [of x] fl_pos_pos [of x] by (auto simp: fl_def)

lemma fl_error: "0 < x \<Longrightarrow> \<bar>fl x - x\<bar> \<le> x / 2 ^ 53"
  using fl_pos_error [of x] by (simp add: fl_def)

subsection \<open>Bounded executor\<close>

text \<open>
  C3. The bounded executor never rejects: whatever the wrapped operation does and whenever
  the timer fires, \<open>withTimeoutNull\<close> is fulfilled. It is fulfilled with the operation's value
  when the operation is fulfilled before the timer, and with \<open>null\<close> when the operation
  rejects first, when the timer fires first and the operation settles later, and when the
  timer fires and the operation never settles.
\<close>

theorem withTimeoutNull_total:
  "(\<exists>v. withTimeoutNull r = Fulfilled v)
   \<and> withTimeoutNull (SettledFirst (Fulfilled x)) = Fulfilled (Some x)
   \<and> withTimeoutNull (SettledFirst (Rejected e)) = Fulfilled None
   \<and> withTimeoutNull (TimerFirst (Some late)) = Fulfilled None
   \<and> withTimeoutNull (TimerFirst None) = Fulfilled None"
  by (cases r; simp add: withTimeoutNull_def race_with_null_timer_def split: settlement.split)

subsection \<open>Query catalog\<close>

lemma unfiltered_when_not_both:
  "\<not> (truthy from \<and> truthy to) \<Longrightarrow> build b x from to = build b x None None"
  by (cases b)
     (auto simp add: appliedCountSql_def approvedCountSql_def kycVerifiedCountSql_def
       planCreationSql_def initialCollectionSql_def consumersWithPlanSql_def
       loanBookSettledSql_def loanBookCollectedSql_def merchantBreakdownSql_def
       truthy_def)

lemmas scan = sublist_code prefix_code truthy_def sq_def nl_def EXCL_CP_def EXCL_PLAN_def

lemma no_date_applied: "\<not> sublist ''DATE('' (appliedCountSql x None None)"
  by (cases x; simp add: appliedCountSql_def scan)

lemma no_date_approved: "\<not> sublist ''DATE('' (approvedCountSql x None None)"
  by (cases x; simp add: approvedCountSql_def scan)

lemma no_date_kyc: "\<not> sublist ''DATE('' (kycVerifiedCountSql x None None)"
  by (cases x; simp add: kycVerifiedCountSql_def scan)

lemma no_date_plan: "\<not> sublist ''DATE('' (planCreationSql x None None)"
  by (cases x; simp add: planCreationSql_def scan)

lemma no_date_initial: "\<not> sublist ''DATE('' (initialCollectionSql x None None)"
  by (cases x; simp add: initialCollectionSql_def scan)

lemma no_date_consumers: "\<not> sublist ''DATE('' (consumersWithPlanSql x None None)"
  by (cases x; simp add: consumersWithPlanSql_def scan)

lemma no_date_settled: "\<not> sublist ''DATE('' (loanBookSettledSql x None None)"
  by (cases x; simp add: loanBookSettledSql_def scan)

lemma no_date_collected: "\<not> sublist ''DATE('' (loanBookCollectedSql x None None)"
  by (cases x; simp add: loanBookCollectedSql_def scan)

lemma no_date_merchant: "\<not> sublist ''DATE('' (merchantBreakdownSql x None None)"
  by (cases x; simp add: merchantBreakdownSql_def js_trim_def is_space_def scan)

lemma no_date_unfiltered: "\<not> sublist ''DATE('' (build b x None None)"
  by (cases b)
     (simp_all add: no_date_applied no_date_approved no_date_kyc no_date_plan no_date_initial
        no_date_consumers no_date_settled no_date_collected no_date_merchant)

lemmas scan2 = sublist_code prefix_code date_range_predicate_def sq_def nl_def EXCL_CP_def EXCL_PLAN_def

lemma has_date_applied:
  "truthy f \<Longrightarrow> truthy t \<Longrightarrow>
   sublist (date_range_predicate ''CREATED_AT'' (fd f) (fd t)) (appliedCountSql x f t)"
  by (simp add: appliedCountSql_def scan2)

lemma has_date_approved:
  "truthy f \<Longrightarrow> truthy t \<Longrightarrow>
   sublist (date_range_predicate ''CREATED_AT'' (fd f) (fd t)) (approvedCountSql x f t)"
  by (simp add: approvedCountSql_def scan2)

lemma has_date_kyc:
  "truthy f \<Longrightarrow> truthy t \<Longrightarrow>
   sublist (date_range_predicate ''CREATED_AT'' (fd f) (fd t)) (kycVerifiedCountSql x f t)"
  by (simp add: kycVerifiedCountSql_def scan2)

lemma has_date_plan:
  "truthy f \<Longrightarrow> truthy t \<Longrightarrow>
   sublist (date_range_predicate ''COALESCE(ca.EXECUTED_AT, ca.CREATED_AT)'' (fd f) (fd t))
     (planCreationSql x f t)"
  by (simp add: planCreationSql_def scan2)

lemma has_date_initial:
  "truthy f \<Longrightarrow> truthy t \<Longrightarrow>
   sublist (date_range_predicate ''COALESCE(ca.EXECUTED_AT, ca.CREATED_AT)'' (fd f) (fd t))
     (initialCollectionSql x f t)"
  by (simp add: initialCollectionSql_def scan2)

lemma has_date_consumers:
  "truthy f \<Longrightarrow> truthy t \<Longrightarrow>
   sublist (date_range_predicate ''CREATED_AT'' (fd f) (fd t)) (consumersWithPlanSql x f t)"
  by (simp add: consumersWithPlanSql_def scan2)

lemma has_date_settled:
  "truthy f \<Longrightarrow> truthy t \<Longrightarrow>
   sublist (date_range_predicate ''ip.CREATED_AT'' (fd f) (fd t)) (loanBookSettledSql x f t)"
  by (simp add: loanBookSettledSql_def scan2)

lemma has_date_collected:
  "truthy f \<Longrightarrow> truthy t \<Longrightarrow>
   sublist (date_range_predicate ''i.CREATED_AT'' (fd f) (fd t)) (loanBookCollectedSql x f t)"
  by (simp add: loanBookCollectedSql_def scan2)

lemma has_date_merchant:
  "truthy f \<Longrightarrow> truthy t \<Longrightarrow>
   sublist (date_range_predicate ''ip.CREATED_AT'' (fd f) (fd t)) (merchantBreakdownSql x f t)"
  by (cases x; simp add: merchantBreakdownSql_def js_trim_def is_space_def scan2)

lemma has_date_filtered:
  "truthy from \<Longrightarrow> truthy to \<Longrightarrow>
   sublist (date_range_predicate (date_column b) (fd from) (fd to)) (build b x from to)"
  by (cases b)
     (simp_all add: has_date_applied has_date_approved has_date_kyc has_date_plan
        has_date_initial has_date_consumers has_date_settled has_date_collected
        has_date_merchant)

text \<open>
  C10. Each of the nine query builders follows the same rule for the date range. When both
  \<open>from\<close> and \<open>to\<close> are given and not empty, the SQL text contains the date-range predicate on
  the builder's timestamp column, with the two dates cut to ten characters. In every other
  case (one of them absent or empty) the SQL text is the one built with no dates at all, and
  text of the form \<open>DATE(\<close> does not occur in it.
\<close>

theorem catalog_both_or_neither:
  "(truthy from \<and> truthy to \<longrightarrow>
      sublist (date_range_predicate (date_column b) (fd from) (fd to)) (build b x from to))
   \<and> (\<not> (truthy from \<and> truthy to) \<longrightarrow>
      build b x from to = build b x None None \<and> \<not> sublist ''DATE('' (build b x from to))"
  using has_date_filtered [of "from" to b x] unfiltered_when_not_both [of "from" to b x]
    no_date_unfiltered [of b x]
  by auto

theorem catalog_both_or_neither_witness:
  "sublist (date_range_predicate (date_column AppliedCount) (fd (Some ''2024-01-01T00:00:00Z''))
       (fd (Some ''2024-01-31'')))
     (build AppliedCount True (Some ''2024-01-01T00:00:00Z'') (Some ''2024-01-31''))
   \<and> build AppliedCount True (Some ''2024-01-01'') None = build AppliedCount True None None
   \<and> \<not> sublist ''DATE('' (build AppliedCount True (Some ''2024-01-01'') None)
   \<and> \<not> sublist ''DATE('' (build MerchantBreakdown False (Some []) (Some ''2024-01-31''))"
proof -
  have both: "truthy (Some ''2024-01-01T00:00:00Z'') \<and> truthy (Some ''2024-01-31'')"
    by (simp add: truthy_def)
  have one: "\<not> (truthy (Some ''2024-01-01'') \<and> truthy None)"
    by (simp add: truthy_def)
  have empty: "\<not> (truthy (Some []) \<and> truthy (Some ''2024-01-31''))"
    by (simp add: truthy_def)
  show ?thesis
    using both one empty
      catalog_both_or_neither [of "Some ''2024-01-01T00:00:00Z''" "Some ''2024-01-31''" AppliedCount True]
      catalog_both_or_neither [of "Some ''2024-01-01''" None AppliedCount True]
      catalog_both_or_neither [of "Some []" "Some ''2024-01-31''" MerchantBreakdown False]
    by blast
qed

subsection \<open>Aggregator: one failed query\<close>

lemma withTimeoutNull_eq: "withTimeoutNull r = Fulfilled (bounded_result r)"
  by (simp add: withTimeoutNull_def race_with_null_timer_def bounded_result_def
      split: racing.split settlement.split)

lemma await_then_Fulfilled: "await_then (Fulfilled v) k = k v"
  by (simp add: await_then_def)

lemma loadBnplData_eq:
  "loadBnplData S N now st fromDate toDate =
     (initial_payload (map_option (take 10) fromDate) (map_option (take 10) toDate) now)
       \<lparr> n_applied := count_of st Q_n_applied,
         n_credit_check_completed := count_of st Q_n_credit_check_completed,
         n_kyc_completed := count_of st Q_n_kyc_completed,
         n_plan_creation := count_of st Q_n_plan_creation,
         n_initial_collection := count_of st Q_n_initial_collection,
         n_consumers_with_plan := count_of st Q_n_consumers_with_plan,
         n_consumers_with_plan_all := count_of st Q_n_consumers_with_plan_all,
         n_overdue := count_of st Q_n_overdue,
         applications := count_of st Q_n_initial_collection,
         approval_rate_pct :=
           approval_rate (count_of st Q_n_credit_check_completed) (count_of st Q_n_applied),
         BnplPayload.total_plan_amount := scalar_of st Q_total_plan_amount,
         loan_book := Some \<lparr> credit_allocated = scalar_of st Q_credit_allocated,
                              operations_settled = scalar_of st Q_total_settled,
                              operations_collected = scalar_of st Q_total_collected,
                              total_settled = scalar_of st Q_total_settled,
                              total_collected = scalar_of st Q_total_collected \<rparr>,
         BnplPayload.merchant := merchant_block (rows_of S N st) \<rparr>"
  by (simp add: loadBnplData_def batch_def withTimeoutNull_eq await_then_Fulfilled
      count_of_def scalar_of_def rows_of_def initial_payload_def Let_def split: option.split)

lemma failed_count: 
  "f = TimerFirst late \<or> f = SettledFirst (Rejected e) \<Longrightarrow> count_of (st(i := f)) i = None"
  by (auto simp: count_of_def bounded_result_def or_null_def runCount_def split: option.split)

lemma failed_scalar: 
  "f = TimerFirst late \<or> f = SettledFirst (Rejected e) \<Longrightarrow> scalar_of (st(i := f)) i = None"
  by (auto simp: scalar_of_def bounded_result_def or_null_def runScalar_def split: option.split)

lemma failed_rows: 
  "f = TimerFirst late \<or> f = SettledFirst (Rejected e) \<Longrightarrow>
   rows_of S N (st(Q_merchantRows := f)) = None \<or> rows_of S N (st(Q_merchantRows := f)) = Some []"
  by (auto simp: rows_of_def bounded_result_def loadMerchantBreakdown_def split: option.split)

lemma other_count: "j \<noteq> i \<Longrightarrow> count_of (st(i := f)) j = count_of st j"
  by (simp add: count_of_def)

lemma other_scalar: "j \<noteq> i \<Longrightarrow> scalar_of (st(i := f)) j = scalar_of st j"
  by (simp add: scalar_of_def)

lemma other_rows: "Q_merchantRows \<noteq> i \<Longrightarrow> rows_of S N (st(i := f)) = rows_of S N st"
  by (simp add: rows_of_def)

lemma merchant_block_empty:
  "r = None \<or> r = Some [] \<Longrightarrow>
   merchant_block r = \<lparr> top3_volume_pct = None, n_merchants = Some 0, by_merchant = [] \<rparr>"
  by (auto simp: merchant_block_def)

lemma shown_eq:
  "shown_for j (loadBnplData S N now st fromDate toDate) =
     (case j of
        Q_n_applied \<Rightarrow> Number (count_of st j)
      | Q_n_credit_check_completed \<Rightarrow> Number (count_of st j)
      | Q_n_kyc_completed \<Rightarrow> Number (count_of st j)
      | Q_n_plan_creation \<Rightarrow> Number (count_of st j)
      | Q_n_initial_collection \<Rightarrow> Number (count_of st j)
      | Q_n_consumers_with_plan \<Rightarrow> Number (count_of st j)
      | Q_total_settled \<Rightarrow> Number (scalar_of st j)
      | Q_total_collected \<Rightarrow> Number (scalar_of st j)
      | Q_total_plan_amount \<Rightarrow> Number (scalar_of st j)
      | Q_merchantRows \<Rightarrow> Breakdown (by_merchant (merchant_block (rows_of S N st)))
      | Q_n_consumers_with_plan_all \<Rightarrow> Number (count_of st j)
      | Q_n_overdue \<Rightarrow> Number (count_of st j)
      | Q_credit_allocated \<Rightarrow> Number (scalar_of st j))"
  by (cases j; simp add: loadBnplData_eq)

lemma loadBnplData_no_error: "error (loadBnplData S N now st fromDate toDate) = None"
  by (simp add: loadBnplData_eq initial_payload_def)

text \<open>
  C2 (as amended). Let one query of the batch fail: its timer fires first (whether the query
  settles later or never), or it rejects. Then the payload carries no \<open>error\<close>; what it shows
  for every other query is what it shows when that query does not fail; a failed count or
  scalar query shows \<open>null\<close>; and a failed merchant breakdown shows an empty list with
  \<open>n_merchants = 0\<close> and \<open>top3_volume_pct = null\<close>.
\<close>

theorem loadBnplData_isolation:
  assumes "failure = TimerFirst late \<or> failure = SettledFirst (Rejected e)"
  shows "error (loadBnplData S N now (st(i := failure)) fromDate toDate) = None
    \<and> (\<forall>j. j \<noteq> i \<longrightarrow>
          shown_for j (loadBnplData S N now (st(i := failure)) fromDate toDate)
          = shown_for j (loadBnplData S N now st fromDate toDate))
    \<and> (i \<noteq> Q_merchantRows \<longrightarrow>
          shown_for i (loadBnplData S N now (st(i := failure)) fromDate toDate) = Number None)
    \<and> (i = Q_merchantRows \<longrightarrow>
          BnplPayload.merchant (loadBnplData S N now (st(i := failure)) fromDate toDate)
          = \<lparr> top3_volume_pct = None, n_merchants = Some 0, by_merchant = [] \<rparr>)"
proof (intro conjI allI impI)
  show "error (loadBnplData S N now (st(i := failure)) fromDate toDate) = None"
    by (rule loadBnplData_no_error)
next
  fix j :: query
  assume "j \<noteq> i"
  then show "shown_for j (loadBnplData S N now (st(i := failure)) fromDate toDate)
      = shown_for j (loadBnplData S N now st fromDate toDate)"
    by (cases j; simp add: shown_eq other_count other_scalar other_rows)
next
  assume "i \<noteq> Q_merchantRows"
  then show "shown_for i (loadBnplData S N now (st(i := failure)) fromDate toDate) = Number None"
    using failed_count [OF assms, of st i] failed_scalar [OF assms, of st i]
    by (cases i; simp add: shown_eq)
next
  assume "i = Q_merchantRows"
  then show "BnplPayload.merchant (loadBnplData S N now (st(i := failure)) fromDate toDate)
      = \<lparr> top3_volume_pct = None, n_merchants = Some 0, by_merchant = [] \<rparr>"
    using failed_rows [OF assms, of S N st]
    by (simp add: loadBnplData_eq merchant_block_empty)
qed

theorem loadBnplData_isolation_witness:
  "error (loadBnplData sample_String sample_Number [] (sample_store(Q_n_applied := TimerFirst None)) None None) = None
   \<and> shown_for Q_n_applied
        (loadBnplData sample_String sample_Number [] (sample_store(Q_n_applied := TimerFirst None)) None None)
      = Number None
   \<and> shown_for Q_n_kyc_completed
        (loadBnplData sample_String sample_Number [] (sample_store(Q_n_applied := TimerFirst None)) None None)
      = Number (Some 5)"
proof -
  have f: "(TimerFirst None :: jsval list racing) = TimerFirst None
           \<or> (TimerFirst None :: jsval list racing) = SettledFirst (Rejected (ErrorObj []))"
    by simp
  have ok: "shown_for Q_n_kyc_completed
              (loadBnplData sample_String sample_Number [] sample_store None None) = Number (Some 5)"
    by (simp add: shown_eq count_of_def sample_store_def bounded_result_def or_null_def
        runCount_def first_cell_def)
  have k: "Q_n_kyc_completed \<noteq> Q_n_applied" and m: "Q_n_applied \<noteq> Q_merchantRows"
    by simp_all
  note iso = loadBnplData_isolation [OF f, of sample_String sample_Number "[]" sample_store
        Q_n_applied None None]
  from iso k have same: "shown_for Q_n_kyc_completed
        (loadBnplData sample_String sample_Number [] (sample_store(Q_n_applied := TimerFirst None)) None None)
      = shown_for Q_n_kyc_completed
        (loadBnplData sample_String sample_Number [] sample_store None None)"
    by blast
  from iso m have failed: "shown_for Q_n_applied
        (loadBnplData sample_String sample_Number [] (sample_store(Q_n_applied := TimerFirst None)) None None)
      = Number None"
    by blast
  from iso have noerr: "error (loadBnplData sample_String sample_Number []
       (sample_store(Q_n_applied := TimerFirst None)) None None) = None"
    by blast
  show ?thesis
    using same failed noerr ok by simp
qed

text \<open>
  The claim as stated fails for the merchant breakdown: when that query rejects, the payload
  reports \<open>n_merchants = 0\<close>, not \<open>null\<close>, and is the very payload of a breakdown that
  succeeded with no rows.
\<close>

theorem merchant_failure_counterexample:
  "n_merchants (BnplPayload.merchant
     (loadBnplData sample_String sample_Number []
        (sample_store(Q_merchantRows := SettledFirst (Rejected (ErrorObj ''query failed''))))
        None None)) = Some 0
   \<and> n_merchants (BnplPayload.merchant
     (loadBnplData sample_String sample_Number []
        (sample_store(Q_merchantRows := SettledFirst (Rejected (ErrorObj ''query failed''))))
        None None)) \<noteq> None
   \<and> loadBnplData sample_String sample_Number []
        (sample_store(Q_merchantRows := SettledFirst (Rejected (ErrorObj ''query failed''))))
        None None
     = loadBnplData sample_String sample_Number []
        (sample_store(Q_merchantRows := SettledFirst (Fulfilled [])))
        None None"
  by (simp add: loadBnplData_eq rows_of_def bounded_result_def loadMerchantBreakdown_def
      merchant_block_def count_of_def scalar_of_def)

subsection \<open>Entry point\<close>

lemma timeout_message_not_empty: "timeout_message \<noteq> []"
  by (simp add: timeout_message_def)

lemma emptyPayload_all_null: "all_metrics_null (emptyPayload from to now m)"
  by (simp add: all_metrics_null_def emptyPayload_def)

lemma failed_values:
  assumes "query_failed (st q)"
  shows "count_of st q = None" "scalar_of st q = None"
  using assms
  by (auto simp: query_failed_def count_of_def scalar_of_def bounded_result_def or_null_def
      runCount_def runScalar_def split: racing.splits settlement.splits)

lemma failed_breakdown:
  assumes "query_failed (st Q_merchantRows)"
  shows "merchant_block (rows_of S N st)
    = \<lparr> top3_volume_pct = None, n_merchants = Some 0, by_merchant = [] \<rparr>"
proof -
  from assms have "rows_of S N st = None \<or> rows_of S N st = Some []"
    by (auto simp: query_failed_def rows_of_def bounded_result_def loadMerchantBreakdown_def
        split: racing.splits settlement.splits)
  then show ?thesis
    by (rule merchant_block_empty)
qed

lemma loadBnplData_all_failed:
  assumes "\<forall>q. query_failed (st q)"
  shows "loadBnplData S N now st fromDate toDate
    = all_queries_failed_payload (map_option (take 10) fromDate) (map_option (take 10) toDate) now"
  using assms
  by (simp add: loadBnplData_eq failed_values failed_breakdown all_queries_failed_payload_def
      approval_rate_def initial_payload_def)

lemma all_queries_failed_payload_facts:
  "error (all_queries_failed_payload from to now) = None"
  "\<not> all_metrics_null (all_queries_failed_payload from to now)"
  by (simp_all add: all_queries_failed_payload_def initial_payload_def all_metrics_null_def)

lemma GET_unreachable:
  assumes "connect rq = Rejected e \<or> outer_timer_first rq"
  shows "GET rq = \<lparr> status = 500,
      body = emptyPayload (param_from rq) (param_to rq) (clock rq)
         (if outer_timer_first rq then timeout_message else error_message e) \<rparr>"
  using assms by (auto simp: GET_def withTimeout_def withConnection_def)

lemma GET_all_failed:
  assumes "connect rq = Fulfilled ()" "\<not> outer_timer_first rq" "\<forall>q. query_failed (replies rq q)"
  shows "GET rq = \<lparr> status = 200,
      body = all_queries_failed_payload (map_option (take 10) (param_from rq))
               (map_option (take 10) (param_to rq)) (clock rq) \<rparr>"
  using assms
  by (simp add: GET_def withTimeout_def withConnection_def loadBnplData_all_failed)

text \<open>
  C1 (as amended). \<open>GET\<close> is a total function: every request gets a response with a payload.
  When the session cannot be acquired (\<open>connectAsync\<close> rejects), or nothing settles before the
  route's timer fires, the response has status 500 and the payload \<open>emptyPayload\<close>: every
  metric is \<open>null\<close>, the list of merchants is empty, and \<open>error\<close> is the message of the failure
  (the timer's message, which is not empty, when the timer fired first; otherwise the
  connection error's message, so not empty whenever that one is not). When the session is
  acquired and every query of the batch fails or times out, no error is reported: the
  response has status 200, \<open>error\<close> is absent, every count, the rate and the total are \<open>null\<close>,
  \<open>loan_book\<close> is an object of \<open>null\<close>s and \<open>n_merchants\<close> is 0.
\<close>

theorem GET_store_unreachable:
  "(connect rq = Rejected e \<or> outer_timer_first rq \<longrightarrow>
      status (GET rq) = 500
      \<and> body (GET rq) = emptyPayload (param_from rq) (param_to rq) (clock rq)
           (if outer_timer_first rq then timeout_message else error_message e)
      \<and> all_metrics_null (body (GET rq))
      \<and> error (body (GET rq))
           = Some (if outer_timer_first rq then timeout_message else error_message e)
      \<and> (error_message e \<noteq> [] \<longrightarrow> error (body (GET rq)) \<noteq> Some []))
   \<and> (connect rq = Fulfilled () \<and> \<not> outer_timer_first rq \<and> (\<forall>q. query_failed (replies rq q)) \<longrightarrow>
      status (GET rq) = 200
      \<and> body (GET rq) = all_queries_failed_payload (map_option (take 10) (param_from rq))
           (map_option (take 10) (param_to rq)) (clock rq)
      \<and> error (body (GET rq)) = None
      \<and> \<not> all_metrics_null (body (GET rq)))"
proof (intro conjI impI)
  assume a: "connect rq = Rejected e \<or> outer_timer_first rq"
  note b = GET_unreachable [OF a]
  show "status (GET rq) = 500"
    by (simp add: b)
  show "body (GET rq) = emptyPayload (param_from rq) (param_to rq) (clock rq)
           (if outer_timer_first rq then timeout_message else error_message e)"
    by (simp add: b)
  show "all_metrics_null (body (GET rq))"
    by (simp add: b emptyPayload_all_null)
  show "error (body (GET rq))
           = Some (if outer_timer_first rq then timeout_message else error_message e)"
    by (simp add: b emptyPayload_def)
  show "error (body (GET rq)) \<noteq> Some []" if "error_message e \<noteq> []"
    using that timeout_message_not_empty by (simp add: b emptyPayload_def)
next
  assume "connect rq = Fulfilled () \<and> \<not> outer_timer_first rq \<and> (\<forall>q. query_failed (replies rq q))"
  then have b: "GET rq = \<lparr> status = 200,
      body = all_queries_failed_payload (map_option (take 10) (param_from rq))
               (map_option (take 10) (param_to rq)) (clock rq) \<rparr>"
    by (intro GET_all_failed) simp_all
  show "status (GET rq) = 200"
    by (simp add: b)
  show "body (GET rq) = all_queries_failed_payload (map_option (take 10) (param_from rq))
           (map_option (take 10) (param_to rq)) (clock rq)"
    by (simp add: b)
  show "error (body (GET rq)) = None"
    by (simp add: b all_queries_failed_payload_facts)
  show "\<not> all_metrics_null (body (GET rq))"
    by (simp add: b all_queries_failed_payload_facts)
qed

theorem GET_store_unreachable_witness:
  "status (GET (sample_request (Rejected (ErrorObj ''Network error'')) False)) = 500
   \<and> all_metrics_null (body (GET (sample_request (Rejected (ErrorObj ''Network error'')) False)))
   \<and> error (body (GET (sample_request (Rejected (ErrorObj ''Network error'')) False)))
       = Some ''Network error''
   \<and> status (GET ((sample_request (Fulfilled ()) False) \<lparr> replies := failing_store \<rparr>)) = 200
   \<and> error (body (GET ((sample_request (Fulfilled ()) False) \<lparr> replies := failing_store \<rparr>))) = None"
proof -
  let ?down = "sample_request (Rejected (ErrorObj ''Network error'')) False"
  let ?up = "(sample_request (Fulfilled ()) False) \<lparr> replies := failing_store \<rparr>"
  have h: "connect ?down = Rejected (ErrorObj ''Network error'') \<or> outer_timer_first ?down"
    by (simp add: sample_request_def)
  have o: "\<not> outer_timer_first ?down"
    by (simp add: sample_request_def)
  have g: "connect ?up = Fulfilled () \<and> \<not> outer_timer_first ?up
           \<and> (\<forall>q. query_failed (replies ?up q))"
    by (simp add: sample_request_def failing_store_def query_failed_def)
  note unreachable = GET_store_unreachable [of ?down "ErrorObj ''Network error''"]
  from unreachable h have s: "status (GET ?down) = 500"
    by blast
  from unreachable h have a: "all_metrics_null (body (GET ?down))"
    by blast
  from unreachable h have
    "error (body (GET ?down))
     = Some (if outer_timer_first ?down then timeout_message
             else error_message (ErrorObj ''Network error''))"
    by blast
  with o have e: "error (body (GET ?down)) = Some ''Network error''"
    by simp
  note failed = GET_store_unreachable [of ?up "ErrorObj ''Network error''"]
  from failed g have t: "status (GET ?up) = 200"
    by blast
  from failed g have n: "error (body (GET ?up)) = None"
    by blast
  from s a e t n show ?thesis
    by blast
qed

text \<open>
  The claim as stated fails when the session is acquired and every query of the batch
  then fails: each failure is turned into \<open>null\<close> by \<open>withTimeoutNull\<close>, the \<open>catch\<close> of
  \<open>loadBnplData\<close> is not reached, and \<open>GET\<close> answers with status 200 and no \<open>error\<close>; the
  payload is not the all-null one (\<open>loan_book\<close> is an object, \<open>n_merchants\<close> is 0).
\<close>

theorem GET_batch_failure_counterexample:
  "status (GET ((sample_request (Fulfilled ()) False) \<lparr> replies := failing_store \<rparr>)) = 200
   \<and> error (body (GET ((sample_request (Fulfilled ()) False) \<lparr> replies := failing_store \<rparr>))) = None
   \<and> \<not> all_metrics_null (body (GET ((sample_request (Fulfilled ()) False) \<lparr> replies := failing_store \<rparr>)))
   \<and> loan_book (body (GET ((sample_request (Fulfilled ()) False) \<lparr> replies := failing_store \<rparr>))) \<noteq> None
   \<and> n_merchants (BnplPayload.merchant
         (body (GET ((sample_request (Fulfilled ()) False) \<lparr> replies := failing_store \<rparr>)))) = Some 0"
proof -
  let ?up = "(sample_request (Fulfilled ()) False) \<lparr> replies := failing_store \<rparr>"
  have "connect ?up = Fulfilled ()" "\<not> outer_timer_first ?up" "\<forall>q. query_failed (replies ?up q)"
    by (simp_all add: sample_request_def failing_store_def query_failed_def)
  from GET_all_failed [OF this] show ?thesis
    by (simp add: all_queries_failed_payload_facts)
       (simp add: all_queries_failed_payload_def initial_payload_def)
qed

subsection \<open>Store client\<close>

text \<open>
  The claim as stated fails: on a result with no rows \<open>runCount\<close> and \<open>runScalar\<close> return
  \<open>null\<close>, not 0, and the payload field is \<open>null\<close>.
\<close>

theorem zero_rows_counterexample:
  "runCount (Fulfilled []) = Fulfilled None \<and> runCount (Fulfilled []) \<noteq> Fulfilled (Some 0)
   \<and> runScalar (Fulfilled []) = Fulfilled None \<and> runScalar (Fulfilled []) \<noteq> Fulfilled (Some 0)
   \<and> n_applied (loadBnplData sample_String sample_Number []
        (sample_store(Q_n_applied := SettledFirst (Fulfilled []))) None None) = None"
  by (simp add: runCount_def runScalar_def first_cell_def loadBnplData_eq count_of_def
      bounded_result_def or_null_def)

text \<open>
  C9 (as amended). A query that succeeds with no rows is not an error: \<open>runCount\<close> and
  \<open>runScalar\<close> do not reject, they are fulfilled with \<open>null\<close>, and the batch then holds
  \<open>null\<close> for that query, the same value as when the query times out. The merchant
  breakdown on no rows is the empty list.
\<close>

theorem zero_rows_null:
  "runCount (Fulfilled []) = Fulfilled None
   \<and> runScalar (Fulfilled []) = Fulfilled None
   \<and> loadMerchantBreakdown S N (Fulfilled []) = Fulfilled []
   \<and> count_of (st(q := SettledFirst (Fulfilled []))) q = None
   \<and> scalar_of (st(q := SettledFirst (Fulfilled []))) q = None
   \<and> count_of (st(q := SettledFirst (Fulfilled []))) q = count_of (st(q := TimerFirst None)) q
   \<and> scalar_of (st(q := SettledFirst (Fulfilled []))) q = scalar_of (st(q := TimerFirst None)) q"
  by (simp add: runCount_def runScalar_def first_cell_def loadMerchantBreakdown_def count_of_def
      scalar_of_def bounded_result_def or_null_def)

theorem zero_rows_null_witness:
  "count_of (sample_store(Q_n_overdue := SettledFirst (Fulfilled []))) Q_n_overdue = None
   \<and> runCount (Fulfilled []) = Fulfilled None"
  using zero_rows_null [of sample_String sample_Number sample_store Q_n_overdue]
  by simp

subsection \<open>Rounding\<close>

lemma Math_round_tenths: "Math_round (x * 10) / 10 = round1 x"
  by (simp add: Math_round_def round1_def)

lemma Math_round_thousand: "Math_round (1000 * a / b) / 10 = round1 (100 * a / b)"
  by (simp add: Math_round_def round1_def)

lemma round1_close: "\<bar>round1 x - x\<bar> \<le> 1 / 20"
proof -
  define k :: rat where "k = of_int \<lfloor>x * 10 + 1 / 2\<rfloor>"
  have "k \<le> x * 10 + 1 / 2"
    unfolding k_def by (rule of_int_floor_le)
  moreover have "x * 10 + 1 / 2 < k + 1"
    unfolding k_def by linarith
  moreover have "round1 x = k / 10"
    by (simp add: round1_def k_def)
  ultimately show ?thesis
    by linarith
qed

lemma round1_tenth: "\<exists>k::int. round1 x = of_int k / 10"
  unfolding round1_def by blast

lemma Math_round_mono: "x \<le> y \<Longrightarrow> Math_round x \<le> Math_round y"
  unfolding Math_round_def by (simp add: floor_mono)

lemma Math_round_int: "Math_round (of_int k) = of_int k"
  unfolding Math_round_def by (simp add: floor_unique)

subsection \<open>Approval rate\<close>

lemma approval_rate_Some:
  "0 < a \<Longrightarrow> approval_rate (Some b) (Some a) = Some (round1 (100 * b / a))"
  using Math_round_tenths [of "100 * b / a"] by (simp add: approval_rate_def)

lemma approval_rate_defined:
  "(approval_rate n_cc n_app \<noteq> None) = (\<exists>b a. n_cc = Some b \<and> n_app = Some a \<and> 0 < a)"
  by (cases n_cc; cases n_app; cases "0 < the n_app"; simp add: approval_rate_def)

lemma approval_rate_80: "approval_rate (Some 80) (Some 100) = Some 80"
  by code_simp

text \<open>
  C4. The approval rate is present exactly when both counts are present and the applied
  count is positive. It is then \<open>100 * countB / countA\<close> rounded to one decimal: a multiple
  of one tenth at most one twentieth away from the exact quotient. It is \<open>null\<close> when either
  count is \<open>null\<close> and when the applied count is 0; for 80 of 100 it is 80. The payload's
  \<open>approval_rate_pct\<close> is this function of the payload's two counts.
\<close>

theorem approval_rate_correct:
  "(approval_rate n_cc n_app \<noteq> None \<longleftrightarrow> (\<exists>b a. n_cc = Some b \<and> n_app = Some a \<and> 0 < a))
   \<and> (\<forall>b a. n_cc = Some b \<and> n_app = Some a \<and> 0 < a \<longrightarrow>
         approval_rate n_cc n_app = Some (round1 (100 * b / a))
         \<and> \<bar>round1 (100 * b / a) - 100 * b / a\<bar> \<le> 1 / 20
         \<and> (\<exists>k::int. round1 (100 * b / a) = of_int k / 10))
   \<and> approval_rate n_cc (Some 0) = None
   \<and> approval_rate None n_app = None
   \<and> approval_rate n_cc None = None
   \<and> approval_rate (Some 80) (Some 100) = Some 80
   \<and> approval_rate_pct (loadBnplData S N now st fromDate toDate)
       = approval_rate (n_credit_check_completed (loadBnplData S N now st fromDate toDate))
                       (n_applied (loadBnplData S N now st fromDate toDate))"
proof (intro conjI allI impI)
  show "(approval_rate n_cc n_app \<noteq> None) = (\<exists>b a. n_cc = Some b \<and> n_app = Some a \<and> 0 < a)"
    by (rule approval_rate_defined)
next
  fix b a assume "n_cc = Some b \<and> n_app = Some a \<and> 0 < a"
  then show "approval_rate n_cc n_app = Some (round1 (100 * b / a))"
    by (simp add: approval_rate_Some)
next
  fix b a :: rat
  show "\<bar>round1 (100 * b / a) - 100 * b / a\<bar> \<le> 1 / 20"
    by (rule round1_close)
  show "\<exists>k::int. round1 (100 * b / a) = of_int k / 10"
    by (rule round1_tenth)
next
  show "approval_rate n_cc (Some 0) = None"
    by (cases n_cc; simp add: approval_rate_def)
  show "approval_rate None n_app = None"
    by (simp add: approval_rate_def)
  show "approval_rate n_cc None = None"
    by (cases n_cc; simp add: approval_rate_def)
  show "approval_rate (Some 80) (Some 100) = Some 80"
    by (rule approval_rate_80)
  show "approval_rate_pct (loadBnplData S N now st fromDate toDate)
       = approval_rate (n_credit_check_completed (loadBnplData S N now st fromDate toDate))
                       (n_applied (loadBnplData S N now st fromDate toDate))"
    by (simp add: loadBnplData_eq)
qed

theorem approval_rate_correct_witness:
  "approval_rate (Some 1) (Some 3) = Some (333 / 10)
   \<and> \<bar>(333 / 10 :: rat) - 100 * 1 / 3\<bar> \<le> 1 / 20"
proof -
  have r: "round1 (100 * 1 / 3) = 333 / 10"
    unfolding round1_def by code_simp
  have h: "Some (1::rat) = Some 1 \<and> Some (3::rat) = Some 3 \<and> (0::rat) < 3"
    by simp
  from approval_rate_correct [of "Some 1" "Some 3"] h
  have "approval_rate (Some 1) (Some 3) = Some (round1 (100 * 1 / 3))
        \<and> \<bar>round1 (100 * 1 / 3) - 100 * 1 / 3\<bar> \<le> 1 / 20"
    by blast
  then show ?thesis
    unfolding r .
qed

subsection \<open>Funnel drop-offs\<close>

lemma count_or_0_funnel:
  "nApplied (Some (funnel_payload a k c p i)) = (case a of None \<Rightarrow> 0 | Some v \<Rightarrow> v)"
  "nKyc (Some (funnel_payload a k c p i)) = (case k of None \<Rightarrow> 0 | Some v \<Rightarrow> v)"
  "nCredit (Some (funnel_payload a k c p i)) = (case c of None \<Rightarrow> 0 | Some v \<Rightarrow> v)"
  "nPlan (Some (funnel_payload a k c p i)) = (case p of None \<Rightarrow> 0 | Some v \<Rightarrow> v)"
  "nInitial (Some (funnel_payload a k c p i)) = (case i of None \<Rightarrow> 0 | Some v \<Rightarrow> v)"
  by (simp_all add: nApplied_def nKyc_def nCredit_def nPlan_def nInitial_def count_or_0_def
      funnel_payload_def)

lemma count_or_0_None:
  "nApplied None = 0" "nKyc None = 0" "nCredit None = 0" "nPlan None = 0" "nInitial None = 0"
  by (simp_all add: nApplied_def nKyc_def nCredit_def nPlan_def nInitial_def count_or_0_def)

text \<open>
  C8. Each of the four drop-off counts of the page is \<open>max(0, countPrev - countNext)\<close> of the
  two adjacent stage counts, and so is never negative, also when the later stage counts more
  than the earlier one.
\<close>

theorem drop_count_nonneg:
  "dropKyc d = max 0 (nApplied d - nKyc d) \<and> 0 \<le> dropKyc d
   \<and> dropCredit d = max 0 (nKyc d - nCredit d) \<and> 0 \<le> dropCredit d
   \<and> dropPlan d = max 0 (nCredit d - nPlan d) \<and> 0 \<le> dropPlan d
   \<and> dropInitial d = max 0 (nPlan d - nInitial d) \<and> 0 \<le> dropInitial d
   \<and> dropKyc (Some (funnel_payload (Some a) (Some k) (Some c) (Some p) (Some i))) = max 0 (a - k)
   \<and> dropCredit (Some (funnel_payload (Some a) (Some k) (Some c) (Some p) (Some i))) = max 0 (k - c)
   \<and> dropPlan (Some (funnel_payload (Some a) (Some k) (Some c) (Some p) (Some i))) = max 0 (c - p)
   \<and> dropInitial (Some (funnel_payload (Some a) (Some k) (Some c) (Some p) (Some i))) = max 0 (p - i)"
  by (simp add: dropKyc_def dropCredit_def dropPlan_def dropInitial_def count_or_0_funnel)

theorem drop_count_nonneg_witness:
  "dropKyc (Some (funnel_payload (Some 5) (Some 9) (Some 9) (Some 9) (Some 9))) = 0
   \<and> dropKyc (Some (funnel_payload (Some 1000) (Some 800) (Some 720) (Some 650) (Some 600))) = 200"
  using drop_count_nonneg [of "None" 5 9 9 9 9] drop_count_nonneg [of "None" 1000 800 720 650 600]
  by simp

lemma pct_example: "pctDropKyc (Some (funnel_payload (Some 37) (Some 32) c p i)) = 27 / 2"
proof -
  have "Math_round (1000 * 5 / 37) / 10 = 27 / 2"
    by code_simp
  then show ?thesis
    by (simp add: pctDropKyc_def dropKyc_def count_or_0_funnel)
qed

lemma pct_round1:
  "pctDropKyc d = (if nApplied d \<noteq> 0 then round1 (100 * dropKyc d / nApplied d) else 0)"
  "pctDropCredit d = (if nKyc d \<noteq> 0 then round1 (100 * dropCredit d / nKyc d) else 0)"
  "pctDropPlan d = (if nCredit d \<noteq> 0 then round1 (100 * dropPlan d / nCredit d) else 0)"
  "pctDropInitial d = (if nPlan d \<noteq> 0 then round1 (100 * dropInitial d / nPlan d) else 0)"
  unfolding pctDropKyc_def pctDropCredit_def pctDropPlan_def pctDropInitial_def
    Math_round_thousand
  by (rule refl)+

lemma pct_spec:
  "0 < nApplied d \<longrightarrow> Some (pctDropKyc d) = spec_dropoff_pct (Some (nApplied d)) (dropKyc d)"
  "0 < nKyc d \<longrightarrow> Some (pctDropCredit d) = spec_dropoff_pct (Some (nKyc d)) (dropCredit d)"
  "0 < nCredit d \<longrightarrow> Some (pctDropPlan d) = spec_dropoff_pct (Some (nCredit d)) (dropPlan d)"
  "0 < nPlan d \<longrightarrow> Some (pctDropInitial d) = spec_dropoff_pct (Some (nPlan d)) (dropInitial d)"
  by (simp_all add: pctDropKyc_def pctDropCredit_def pctDropPlan_def pctDropInitial_def
      spec_dropoff_pct_def)

lemma pct_zero:
  "pctDropKyc None = 0"
  "pctDropKyc (Some (funnel_payload None k c p i)) = 0"
  "pctDropKyc (Some (funnel_payload (Some 0) k c p i)) = 0"
  by (simp_all add: pctDropKyc_def count_or_0_funnel count_or_0_None)

text \<open>
  C5 (as amended). Each of the four drop-off percentages is
  \<open>Math.round(1000 * dropCount / countPrev) / 10\<close>, that is \<open>100 * dropCount / countPrev\<close>
  rounded to one decimal, when the earlier stage's count is not 0; when that count is 0 or
  \<open>null\<close> (read as 0) the percentage is the number 0. Where the earlier count is positive it
  is the specification's value. For 5 dropped of 37 it is 13.5.
\<close>

theorem dropoff_pct_correct:
  "pctDropKyc d = (if nApplied d \<noteq> 0 then round1 (100 * dropKyc d / nApplied d) else 0)
   \<and> pctDropCredit d = (if nKyc d \<noteq> 0 then round1 (100 * dropCredit d / nKyc d) else 0)
   \<and> pctDropPlan d = (if nCredit d \<noteq> 0 then round1 (100 * dropPlan d / nCredit d) else 0)
   \<and> pctDropInitial d = (if nPlan d \<noteq> 0 then round1 (100 * dropInitial d / nPlan d) else 0)
   \<and> (0 < nApplied d \<longrightarrow> Some (pctDropKyc d) = spec_dropoff_pct (Some (nApplied d)) (dropKyc d))
   \<and> (0 < nKyc d \<longrightarrow> Some (pctDropCredit d) = spec_dropoff_pct (Some (nKyc d)) (dropCredit d))
   \<and> (0 < nCredit d \<longrightarrow> Some (pctDropPlan d) = spec_dropoff_pct (Some (nCredit d)) (dropPlan d))
   \<and> (0 < nPlan d \<longrightarrow> Some (pctDropInitial d) = spec_dropoff_pct (Some (nPlan d)) (dropInitial d))
   \<and> pctDropKyc None = 0
   \<and> pctDropKyc (Some (funnel_payload None k c p i)) = 0
   \<and> pctDropKyc (Some (funnel_payload (Some 0) k c p i)) = 0
   \<and> pctDropKyc (Some (funnel_payload (Some 37) (Some 32) c p i)) = 27 / 2"
  by (intro conjI pct_round1 pct_spec pct_zero pct_example)

theorem dropoff_pct_correct_witness:
  "Some (pctDropKyc (Some (funnel_payload (Some 37) (Some 32) None None None)))
     = spec_dropoff_pct (Some 37) 5
   \<and> pctDropKyc (Some (funnel_payload (Some 37) (Some 32) None None None)) = 27 / 2"
proof -
  have pos: "0 < nApplied (Some (funnel_payload (Some 37) (Some 32) None None None))"
    by (simp add: count_or_0_funnel)
  have n: "nApplied (Some (funnel_payload (Some 37) (Some 32) None None None)) = 37"
    by (simp add: count_or_0_funnel)
  have dr: "dropKyc (Some (funnel_payload (Some 37) (Some 32) None None None)) = 5"
    by (simp add: dropKyc_def count_or_0_funnel)
  note c = dropoff_pct_correct [of "Some (funnel_payload (Some 37) (Some 32) None None None)"
      "Some 32" None None None]
  from c pos have "Some (pctDropKyc (Some (funnel_payload (Some 37) (Some 32) None None None)))
     = spec_dropoff_pct (Some (nApplied (Some (funnel_payload (Some 37) (Some 32) None None None))))
         (dropKyc (Some (funnel_payload (Some 37) (Some 32) None None None)))"
    by blast
  moreover from c have
    "pctDropKyc (Some (funnel_payload (Some 37) (Some 32) None None None)) = 27 / 2"
    by blast
  ultimately show ?thesis
    unfolding n dr by blast
qed

text \<open>
  The claim as stated fails where the earlier stage's count is 0 or \<open>null\<close>: the page
  computes the number 0, where the claim has the percentage unknown.
\<close>

theorem dropoff_pct_zero_counterexample:
  "pctDropKyc (Some (funnel_payload (Some 0) (Some 0) None None None)) = 0
   \<and> spec_dropoff_pct (Some 0) (dropKyc (Some (funnel_payload (Some 0) (Some 0) None None None))) = None
   \<and> Some (pctDropKyc (Some (funnel_payload (Some 0) (Some 0) None None None)))
       \<noteq> spec_dropoff_pct (Some 0) (dropKyc (Some (funnel_payload (Some 0) (Some 0) None None None)))
   \<and> pctDropKyc (Some (funnel_payload None (Some 0) None None None)) = 0
   \<and> spec_dropoff_pct None (dropKyc (Some (funnel_payload None (Some 0) None None None))) = None"
  by (simp add: pctDropKyc_def spec_dropoff_pct_def count_or_0_funnel)

subsection \<open>Largest drop-off\<close>

















subsection \<open>Merchant concentration\<close>

lemma double_sum_from:
  assumes "\<forall>r \<in> set rows. 0 \<le> MerchantRow.total_plan_amount r" "0 \<le> a" "fl a = a"
  shows "a \<le> foldl (\<lambda>s r. fl (s + MerchantRow.total_plan_amount r)) a rows
    \<and> foldl (\<lambda>s r. fl (s + MerchantRow.total_plan_amount r)) a (take n rows)
        \<le> foldl (\<lambda>s r. fl (s + MerchantRow.total_plan_amount r)) a rows"
  using assms
proof (induction rows arbitrary: a n)
  case Nil
  then show ?case by simp
next
  case (Cons r rows)
  let ?v = "MerchantRow.total_plan_amount r"
  let ?b = "fl (a + ?v)"
  from Cons.prems have v: "0 \<le> ?v"
    by simp
  with Cons.prems have "fl a \<le> ?b"
    by (intro fl_mono) simp_all
  with Cons.prems have ab: "a \<le> ?b"
    by simp
  with Cons.prems have b0: "0 \<le> ?b"
    by simp
  have bb: "fl ?b = ?b"
    using Cons.prems v by (intro fl_idem) simp
  from Cons.prems have rest: "\<forall>r \<in> set rows. 0 \<le> MerchantRow.total_plan_amount r"
    by simp
  note ih = Cons.IH [OF rest b0 bb]
  show ?case
  proof (cases n)
    case 0
    with ih [of 0] ab show ?thesis
      by simp
  next
    case (Suc k)
    with ih [of k] ab show ?thesis
      by simp
  qed
qed

lemma double_sum_take:
  assumes "\<forall>r \<in> set rows. 0 \<le> MerchantRow.total_plan_amount r"
  shows "0 \<le> double_sum (take n rows)" "double_sum (take n rows) \<le> double_sum rows"
proof -
  have t: "\<forall>r \<in> set (take n rows). 0 \<le> MerchantRow.total_plan_amount r"
    using assms by (meson in_set_takeD)
  from double_sum_from [OF t, of 0 0] show "0 \<le> double_sum (take n rows)"
    by (simp add: double_sum_def fl_0)
  from double_sum_from [OF assms, of 0 n] show "double_sum (take n rows) \<le> double_sum rows"
    by (simp add: double_sum_def fl_0)
qed

lemma double_sum_pos_iff:
  assumes "\<forall>r \<in> set rows. 0 \<le> MerchantRow.total_plan_amount r" "0 \<le> a"
  shows "(0 < foldl (\<lambda>s r. fl (s + MerchantRow.total_plan_amount r)) a rows)
    = (0 < a + sum_list (map MerchantRow.total_plan_amount rows))"
  using assms
proof (induction rows arbitrary: a)
  case Nil
  then show ?case by simp
next
  case (Cons r rows)
  let ?v = "MerchantRow.total_plan_amount r"
  from Cons.prems have v: "0 \<le> ?v" and rest: "\<forall>r \<in> set rows. 0 \<le> MerchantRow.total_plan_amount r"
    by simp_all
  have b0: "0 \<le> fl (a + ?v)"
    using Cons.prems v by (intro fl_nonneg) simp
  have s: "0 \<le> sum_list (map MerchantRow.total_plan_amount rows)"
    using rest by (auto intro!: sum_list_nonneg)
  have "(0 < fl (a + ?v)) = (0 < a + ?v)"
    using fl_pos_iff [of "a + ?v"] fl_0 Cons.prems v
    by (cases "a + ?v = 0") (auto simp: less_le)
  with Cons.IH [OF rest b0] s b0 Cons.prems v show ?case
    by (auto simp: less_le add_nonneg_eq_0_iff)
qed

lemma fl_quarters: "fl (399 / 4) = 399 / 4" "fl (401 / 4) = 401 / 4"
  by code_simp+

lemma Math_round_100: "Math_round 0 = 0" "Math_round (401 / 4) = 100"
  by code_simp+

lemma Math_round_near_100:
  assumes "399 / 4 \<le> x" "x \<le> 401 / 4"
  shows "Math_round x = 100"
proof -
  have "\<lfloor>x + 1 / 2\<rfloor> = 100"
    using assms by (intro floor_unique) simp_all
  then show ?thesis
    by (simp add: Math_round_def)
qed

lemma top3_eq:
  "top3_volume_pct (merchant_block (Some rows))
   = (if 0 < double_sum rows
      then Some (Math_round (fl (fl (100 * double_sum (take 3 rows)) / double_sum rows)))
      else None)"
  by (simp add: merchant_block_def double_sum_def Let_def)

lemma quotient_le:
  assumes "0 \<le> t" "t \<le> T" "0 < T"
  shows "0 \<le> fl (fl (100 * t) / T)" "fl (fl (100 * t) / T) \<le> 401 / 4"
proof -
  have n: "0 \<le> fl (100 * t)"
    using assms by (intro fl_nonneg) simp
  with assms show "0 \<le> fl (fl (100 * t) / T)"
    by (intro fl_nonneg) simp
  have "fl (100 * t) \<le> fl (100 * T)"
    using assms by (intro fl_mono) simp_all
  moreover have "\<bar>fl (100 * T) - 100 * T\<bar> \<le> 100 * T / 2 ^ 53"
    using assms by (intro fl_error) simp
  ultimately have "fl (100 * t) \<le> 100 * T + 100 * T / 2 ^ 53"
    by linarith
  also have "\<dots> \<le> 401 / 4 * T"
    using assms by simp
  finally have "fl (100 * t) / T \<le> 401 / 4"
    using assms by (simp add: pos_divide_le_eq)
  with n assms have "fl (fl (100 * t) / T) \<le> fl (401 / 4)"
    by (intro fl_mono) simp_all
  then show "fl (fl (100 * t) / T) \<le> 401 / 4"
    by (simp only: fl_quarters)
qed

lemma quotient_self:
  assumes "0 < T"
  shows "399 / 4 \<le> fl (fl (100 * T) / T)" "fl (fl (100 * T) / T) \<le> 401 / 4"
proof -
  from quotient_le [of T T] assms show "fl (fl (100 * T) / T) \<le> 401 / 4"
    by simp
  have "\<bar>fl (100 * T) - 100 * T\<bar> \<le> 100 * T / 2 ^ 53"
    using assms by (intro fl_error) simp
  then have "100 * T - 100 * T / 2 ^ 53 \<le> fl (100 * T)"
    by linarith
  moreover have "399 / 4 * T \<le> 100 * T - 100 * T / 2 ^ 53"
    using assms by simp
  ultimately have "399 / 4 \<le> fl (100 * T) / T"
    using assms by (simp add: pos_le_divide_eq)
  then have "fl (399 / 4) \<le> fl (fl (100 * T) / T)"
    by (intro fl_mono) simp_all
  then show "399 / 4 \<le> fl (fl (100 * T) / T)"
    by (simp only: fl_quarters)
qed

lemma top3_bounds:
  assumes pos: "0 < double_sum rows"
    and nonneg: "\<forall>r \<in> set rows. 0 \<le> MerchantRow.total_plan_amount r"
  shows "\<exists>s. top3_volume_pct (merchant_block (Some rows)) = Some s \<and> 0 \<le> s \<and> s \<le> 100"
proof -
  let ?q = "fl (fl (100 * double_sum (take 3 rows)) / double_sum rows)"
  from quotient_le [OF double_sum_take [OF nonneg, of 3] pos]
  have "0 \<le> ?q" "?q \<le> 401 / 4"
    by simp_all
  then have "Math_round 0 \<le> Math_round ?q" "Math_round ?q \<le> Math_round (401 / 4)"
    by (simp_all add: Math_round_mono)
  then have "0 \<le> Math_round ?q \<and> Math_round ?q \<le> 100"
    by (simp add: Math_round_100)
  with pos show ?thesis
    by (simp add: top3_eq)
qed

lemma top3_single:
  assumes "0 < v"
  shows "top3_volume_pct (merchant_block
     (Some [\<lparr> MerchantRow.merchant = m, plan_count = c, MerchantRow.total_plan_amount = v \<rparr>]))
   = Some 100"
proof -
  have p: "0 < fl v"
    using assms by (rule fl_pos_iff)
  from quotient_self [OF p] have "Math_round (fl (fl (100 * fl v) / fl v)) = 100"
    by (rule Math_round_near_100)
  with p show ?thesis
    by (simp add: top3_eq double_sum_def)
qed

lemma top3_scenario:
  "top3_volume_pct (merchant_block
     (Some [\<lparr> MerchantRow.merchant = ''A'', plan_count = 1, MerchantRow.total_plan_amount = 1000 \<rparr>,
            \<lparr> MerchantRow.merchant = ''B'', plan_count = 1, MerchantRow.total_plan_amount = 600 \<rparr>,
            \<lparr> MerchantRow.merchant = ''C'', plan_count = 1, MerchantRow.total_plan_amount = 400 \<rparr>,
            \<lparr> MerchantRow.merchant = ''D'', plan_count = 1, MerchantRow.total_plan_amount = 100 \<rparr>]))
   = Some 95"
  by code_simp

lemma top3_decimal_amounts:
  "top3_volume_pct (merchant_block (Some decimal_rows)) = Some 93"
  by code_simp

lemma double_sum_positive:
  assumes "\<forall>r \<in> set rows. 0 \<le> MerchantRow.total_plan_amount r"
  shows "(0 < double_sum rows) = (0 < sum_list (map MerchantRow.total_plan_amount rows))"
  using double_sum_pos_iff [OF assms, of 0] by (simp add: double_sum_def)

lemma payload_merchant:
  "BnplPayload.merchant (loadBnplData S N now st fromDate toDate) = merchant_block (rows_of S N st)"
  by (simp add: loadBnplData_eq)

text \<open>
  C7 (as amended). \<open>top3_volume_pct\<close> is \<open>Math.round(100 * top3Vol / totalVol)\<close> when
  \<open>totalVol > 0\<close> and \<open>null\<close> otherwise, where \<open>totalVol\<close> and \<open>top3Vol\<close> are the amounts of all
  rows and of the first three rows added from the left in doubles, and the product and the
  quotient are rounded to doubles too. With no negative amount, \<open>totalVol\<close> is positive
  exactly when the exact total is; the share then lies between 0 and 100. For a single
  merchant of positive amount it is 100; for the amounts 1000, 600, 400 and 100 it is 95; for
  the amounts 300.99, 35.5, 28.16, 21.88 and 3.47 it is 93. The payload's merchant block is
  this function of the rows the batch received.
\<close>

theorem top3_share_correct:
  "top3_volume_pct (merchant_block (Some rows))
     = (if 0 < double_sum rows
        then Some (Math_round (fl (fl (100 * double_sum (take 3 rows)) / double_sum rows)))
        else None)
   \<and> ((\<forall>r \<in> set rows. 0 \<le> MerchantRow.total_plan_amount r) \<longrightarrow>
        (0 < double_sum rows \<longleftrightarrow> 0 < sum_list (map MerchantRow.total_plan_amount rows)))
   \<and> (0 < double_sum rows \<and> (\<forall>r \<in> set rows. 0 \<le> MerchantRow.total_plan_amount r) \<longrightarrow>
        (\<exists>s. top3_volume_pct (merchant_block (Some rows)) = Some s \<and> 0 \<le> s \<and> s \<le> 100))
   \<and> (0 < v \<longrightarrow>
        top3_volume_pct (merchant_block
          (Some [\<lparr> MerchantRow.merchant = m, plan_count = c, MerchantRow.total_plan_amount = v \<rparr>]))
        = Some 100)
   \<and> top3_volume_pct (merchant_block
     (Some [\<lparr> MerchantRow.merchant = ''A'', plan_count = 1, MerchantRow.total_plan_amount = 1000 \<rparr>,
            \<lparr> MerchantRow.merchant = ''B'', plan_count = 1, MerchantRow.total_plan_amount = 600 \<rparr>,
            \<lparr> MerchantRow.merchant = ''C'', plan_count = 1, MerchantRow.total_plan_amount = 400 \<rparr>,
            \<lparr> MerchantRow.merchant = ''D'', plan_count = 1, MerchantRow.total_plan_amount = 100 \<rparr>]))
     = Some 95
   \<and> top3_volume_pct (merchant_block (Some decimal_rows)) = Some 93
   \<and> BnplPayload.merchant (loadBnplData S N now st fromDate toDate)
     = merchant_block (rows_of S N st)"
proof (intro conjI impI)
  show "top3_volume_pct (merchant_block (Some rows))
     = (if 0 < double_sum rows
        then Some (Math_round (fl (fl (100 * double_sum (take 3 rows)) / double_sum rows)))
        else None)"
    by (rule top3_eq)
  show "(0 < double_sum rows) = (0 < sum_list (map MerchantRow.total_plan_amount rows))"
    if "\<forall>r \<in> set rows. 0 \<le> MerchantRow.total_plan_amount r"
    using that by (rule double_sum_positive)
  show "\<exists>s. top3_volume_pct (merchant_block (Some rows)) = Some s \<and> 0 \<le> s \<and> s \<le> 100"
    if "0 < double_sum rows \<and> (\<forall>r \<in> set rows. 0 \<le> MerchantRow.total_plan_amount r)"
    using that by (intro top3_bounds) simp_all
  show "top3_volume_pct (merchant_block
          (Some [\<lparr> MerchantRow.merchant = m, plan_count = c, MerchantRow.total_plan_amount = v \<rparr>]))
        = Some 100" if "0 < v"
    using that by (rule top3_single)
  show "top3_volume_pct (merchant_block
     (Some [\<lparr> MerchantRow.merchant = ''A'', plan_count = 1, MerchantRow.total_plan_amount = 1000 \<rparr>,
            \<lparr> MerchantRow.merchant = ''B'', plan_count = 1, MerchantRow.total_plan_amount = 600 \<rparr>,
            \<lparr> MerchantRow.merchant = ''C'', plan_count = 1, MerchantRow.total_plan_amount = 400 \<rparr>,
            \<lparr> MerchantRow.merchant = ''D'', plan_count = 1, MerchantRow.total_plan_amount = 100 \<rparr>]))
     = Some 95"
    by (rule top3_scenario)
  show "top3_volume_pct (merchant_block (Some decimal_rows)) = Some 93"
    by (rule top3_decimal_amounts)
  show "BnplPayload.merchant (loadBnplData S N now st fromDate toDate)
     = merchant_block (rows_of S N st)"
    by (rule payload_merchant)
qed

theorem top3_share_correct_witness:
  "top3_volume_pct (merchant_block
     (Some [\<lparr> MerchantRow.merchant = ''A'', plan_count = 2, MerchantRow.total_plan_amount = 7 \<rparr>]))
   = Some 100
   \<and> (\<exists>s. top3_volume_pct (merchant_block (Some decimal_rows)) = Some s \<and> 0 \<le> s \<and> s \<le> 100)"
proof -
  have "(0::rat) < 7"
    by simp
  with top3_share_correct [of "[]" 7 "''A''" 2]
  have one: "top3_volume_pct (merchant_block
     (Some [\<lparr> MerchantRow.merchant = ''A'', plan_count = 2, MerchantRow.total_plan_amount = 7 \<rparr>]))
   = Some 100"
    by blast
  have "0 < double_sum decimal_rows
        \<and> (\<forall>r \<in> set decimal_rows. 0 \<le> MerchantRow.total_plan_amount r)"
    by code_simp
  with top3_share_correct [of decimal_rows]
  have "\<exists>s. top3_volume_pct (merchant_block (Some decimal_rows)) = Some s \<and> 0 \<le> s \<and> s \<le> 100"
    by blast
  with one show ?thesis
    by blast
qed

text \<open>
  The claim as stated fails in two ways. For a breakdown that is not empty but whose
  amounts are all 0 the share is \<open>null\<close>, so it is neither within 0 and 100 nor, for a single
  merchant, 100. And the share is not the exactly computed
  \<open>round(100 * sum of first 3 / sum of all)\<close>: on the amounts 300.99, 35.5, 28.16, 21.88 and
  3.47 the code's doubles give 93 where the exact quotient of the same amounts rounds to 94.
\<close>

theorem top3_zero_volume_counterexample:
  "top3_volume_pct (merchant_block
     (Some [\<lparr> MerchantRow.merchant = ''A'', plan_count = 1, MerchantRow.total_plan_amount = 0 \<rparr>]))
   = None
   \<and> top3_volume_pct (merchant_block
     (Some [\<lparr> MerchantRow.merchant = ''A'', plan_count = 1, MerchantRow.total_plan_amount = 0 \<rparr>]))
   \<noteq> Some 100
   \<and> top3_volume_pct (merchant_block (Some decimal_rows)) = Some 93
   \<and> spec_top3_share decimal_rows = Some 94"
  by code_simp

end
